theory Spec2Isabelle
  imports Main "HOL-Library.Word"
begin

section \<open>JavaScript values of the EVM transaction pipeline\<close>

text \<open>
  The development embeds two source files of the EVM family of the wallet library:
  the transaction codec and classifier (\<^verbatim>\<open>fromTransactionRaw\<close>, \<^verbatim>\<open>toTransactionRaw\<close>,
  \<^verbatim>\<open>getTransactionData\<close>, \<^verbatim>\<open>getTypedTransaction\<close>) and the preparer
  (\<^verbatim>\<open>prepareCoinTransaction\<close>, \<^verbatim>\<open>prepareTokenTransaction\<close>, \<^verbatim>\<open>prepareTransaction\<close>,
  \<^verbatim>\<open>prepareForSignOperation\<close>).

  A JavaScript \<^verbatim>\<open>number\<close> is carried as an integer or \<^verbatim>\<open>NaN\<close>: the numbers of
  the pipeline (chain id, nonce, type discriminator) are integers, and \<^verbatim>\<open>NaN\<close> is what
  \<^verbatim>\<open>Number(undefined)\<close> evaluates to. An optional field is an \<open>option\<close>:
  \<open>None\<close> is an absent field (or \<^verbatim>\<open>null\<close>, for the fields of the fee snapshot,
  which are nullable).
\<close>

datatype js_number = JSNum int | JSNaN

text \<open>
  \<^verbatim>\<open>Number(x)\<close> for \<^verbatim>\<open>x: number | undefined\<close>: a number is returned as it is, and
  \<^verbatim>\<open>undefined\<close> converts to \<^verbatim>\<open>NaN\<close>.
\<close>

fun js_Number :: "js_number option \<Rightarrow> js_number" where
  "js_Number None = JSNaN"
| "js_Number (Some n) = n"

text \<open>
  A \<^verbatim>\<open>BigNumber\<close> (bignumber.js) of the pipeline is an amount of minor units (wei, gas):
  an integer of arbitrary size, or the library's \<^verbatim>\<open>NaN\<close>, which its constructor returns
  for a string it cannot read and which every operation propagates.
\<close>

datatype BigNumber = BN int | BN_NaN

fun bn_minus :: "BigNumber \<Rightarrow> BigNumber \<Rightarrow> BigNumber" where
  "bn_minus (BN a) (BN b) = BN (a - b)"
| "bn_minus _ _ = BN_NaN"

fun bn_plus :: "BigNumber \<Rightarrow> BigNumber \<Rightarrow> BigNumber" where
  "bn_plus (BN a) (BN b) = BN (a + b)"
| "bn_plus _ _ = BN_NaN"

fun bn_multipliedBy :: "BigNumber \<Rightarrow> BigNumber \<Rightarrow> BigNumber" where
  "bn_multipliedBy (BN a) (BN b) = BN (a * b)"
| "bn_multipliedBy _ _ = BN_NaN"

fun bn_isZero :: "BigNumber \<Rightarrow> bool" where
  "bn_isZero (BN a) = (a = 0)"
| "bn_isZero BN_NaN = False"

fun bn_isGreaterThan :: "BigNumber \<Rightarrow> BigNumber \<Rightarrow> bool" where
  "bn_isGreaterThan (BN a) (BN b) = (b < a)"
| "bn_isGreaterThan _ _ = False"

subsection \<open>Decimal strings\<close>

definition digitChar :: "nat \<Rightarrow> char" where
  "digitChar n = ''0123456789'' ! n"

definition digitVal :: "char \<Rightarrow> nat option" where
  "digitVal c =
     (let n = (of_char c :: nat)
      in if 48 \<le> n \<and> n \<le> 57 then Some (n - 48) else None)"

fun showNat :: "nat \<Rightarrow> string" where
  "showNat n =
     (if n < 10 then [digitChar n] else showNat (n div 10) @ [digitChar (n mod 10)])"

fun parseDigits :: "nat \<Rightarrow> string \<Rightarrow> nat option" where
  "parseDigits acc [] = Some acc"
| "parseDigits acc (c # cs) =
     (case digitVal c of None \<Rightarrow> None | Some d \<Rightarrow> parseDigits (10 * acc + d) cs)"

text \<open>
  \<^verbatim>\<open>x.toFixed()\<close>: plain decimal notation, never an exponent; \<^verbatim>\<open>"NaN"\<close> for
  \<^verbatim>\<open>NaN\<close>.
\<close>

fun toFixed :: "BigNumber \<Rightarrow> string" where
  "toFixed (BN i) = (if i < 0 then CHR ''-'' # showNat (nat (- i)) else showNat (nat i))"
| "toFixed BN_NaN = ''NaN''"

text \<open>
  \<^verbatim>\<open>new BigNumber(s)\<close> for a string: the model reads the plain decimal notation of an
  integer, with an optional minus sign; every other string gives \<^verbatim>\<open>NaN\<close> (the constructor
  never throws).
\<close>

definition parseNat :: "string \<Rightarrow> BigNumber" where
  "parseNat s =
     (if s = [] then BN_NaN
      else case parseDigits 0 s of None \<Rightarrow> BN_NaN | Some n \<Rightarrow> BN (int n))"

fun new_BigNumber :: "string \<Rightarrow> BigNumber" where
  "new_BigNumber [] = BN_NaN"
| "new_BigNumber (c # cs) =
     (if c = CHR ''-''
      then (case parseNat cs of BN n \<Rightarrow> BN (- n) | BN_NaN \<Rightarrow> BN_NaN)
      else parseNat (c # cs))"

subsection \<open>Buffers and hexadecimal strings\<close>

type_synonym byte = "8 word"

type_synonym Buffer = "byte list"

definition hexDigit :: "nat \<Rightarrow> char" where
  "hexDigit n = ''0123456789abcdef'' ! n"

definition hexVal :: "char \<Rightarrow> nat option" where
  "hexVal c =
     (let n = (of_char c :: nat)
      in if 48 \<le> n \<and> n \<le> 57 then Some (n - 48)
         else if 97 \<le> n \<and> n \<le> 102 then Some (n - 87)
         else if 65 \<le> n \<and> n \<le> 70 then Some (n - 55)
         else None)"

text \<open>\<^verbatim>\<open>buffer.toString("hex")\<close>: two lower-case digits for each byte.\<close>

fun toString_hex :: "Buffer \<Rightarrow> string" where
  "toString_hex [] = []"
| "toString_hex (b # bs) =
     hexDigit (unat b div 16) # hexDigit (unat b mod 16) # toString_hex bs"

text \<open>
  \<^verbatim>\<open>Buffer.from(s, "hex")\<close>: one byte for each pair of hexadecimal digits; decoding
  stops at the first pair that is not one, and a last single character is dropped.
\<close>

fun Buffer_from_hex :: "string \<Rightarrow> Buffer" where
  "Buffer_from_hex (a # b # cs) =
     (case (hexVal a, hexVal b) of
        (Some x, Some y) \<Rightarrow> (of_nat (16 * x + y)) # Buffer_from_hex cs
      | _ \<Rightarrow> [])"
| "Buffer_from_hex _ = []"

section \<open>The data model\<close>

text \<open>
  \<^verbatim>\<open>TransactionCommon\<close> and the EVM \<^verbatim>\<open>Transaction\<close> that extends it; the raw
  forms carry a decimal string for each \<^verbatim>\<open>BigNumber\<close> and a hexadecimal string for the
  \<^verbatim>\<open>Buffer\<close>.
\<close>

record TransactionCommon =
  amount :: BigNumber
  recipient :: string
  useAllAmount :: "bool option"
  subAccountId :: "string option"

record Transaction = TransactionCommon +
  family :: string
  mode :: string
  chainId :: js_number
  nonce :: js_number
  gasLimit :: BigNumber
  feesStrategy :: "string option"
  type :: "js_number option"
  data :: "Buffer option"
  gasPrice :: "BigNumber option"
  maxFeePerGas :: "BigNumber option"
  maxPriorityFeePerGas :: "BigNumber option"

record TransactionCommonRaw =
  raw_amount :: string
  raw_recipient :: string
  raw_useAllAmount :: "bool option"
  raw_subAccountId :: "string option"

record TransactionRaw = TransactionCommonRaw +
  raw_family :: string
  raw_mode :: string
  raw_chainId :: js_number
  raw_nonce :: js_number
  raw_gasLimit :: string
  raw_feesStrategy :: "string option"
  raw_type :: "js_number option"
  raw_data :: "string option"
  raw_gasPrice :: "string option"
  raw_maxFeePerGas :: "string option"
  raw_maxPriorityFeePerGas :: "string option"

text \<open>The network's fee snapshot: each field a \<^verbatim>\<open>BigNumber\<close> or \<^verbatim>\<open>null\<close>.\<close>

record FeeData =
  fee_maxFeePerGas :: "BigNumber option"
  fee_maxPriorityFeePerGas :: "BigNumber option"
  fee_gasPrice :: "BigNumber option"

record TokenCurrency =
  contractAddress :: string

record TokenAccount =
  token_id :: string
  token_balance :: BigNumber
  token :: TokenCurrency

text \<open>
  A sub-account is a token account (\<^verbatim>\<open>type === "TokenAccount"\<close>) or an account of
  another type, of which only the id is read.
\<close>

datatype SubAccount = SubTokenAccount TokenAccount | SubOtherAccount string

record Account =
  currency :: string
  freshAddress :: string
  balance :: BigNumber
  subAccounts :: "SubAccount list"

text \<open>The first argument of \<^verbatim>\<open>validateAmount\<close>: the account or the token account.\<close>

datatype AccountLike = OfAccount Account | OfTokenAccount TokenAccount

section \<open>The raw transaction codec\<close>

text \<open>
  JavaScript truthiness. An optional object (\<^verbatim>\<open>Buffer\<close>, \<^verbatim>\<open>BigNumber\<close>) is truthy
  when it is present; an optional string when it is present and not empty; an optional
  boolean when it is \<^verbatim>\<open>true\<close>.
\<close>

fun truthy :: "'a option \<Rightarrow> bool" where
  "truthy None = False"
| "truthy (Some _) = True"

fun truthy_bool :: "bool option \<Rightarrow> bool" where
  "truthy_bool None = False"
| "truthy_bool (Some b) = b"

fun truthy_string :: "string option \<Rightarrow> bool" where
  "truthy_string None = False"
| "truthy_string (Some s) = (s \<noteq> [])"

text \<open>
  Modelled from the spec: \<^verbatim>\<open>fromTransactionCommonRaw\<close> (module
  \<^verbatim>\<open>transaction/common\<close>) is not among the source files. The spec's codec contract:
  numeric fields convert via decimal-string encoding using arbitrary-precision decimals;
  the other common fields are carried as they are.
\<close>

definition fromTransactionCommonRaw :: "'a TransactionCommonRaw_scheme \<Rightarrow> TransactionCommon" where
  "fromTransactionCommonRaw raw =
     \<lparr> amount = new_BigNumber (raw_amount raw),
       recipient = raw_recipient raw,
       useAllAmount = raw_useAllAmount raw,
       subAccountId = raw_subAccountId raw \<rparr>"

text \<open>
  Modelled from the spec: \<^verbatim>\<open>toTransactionCommonRaw\<close> (module \<^verbatim>\<open>transaction/common\<close>)
  is not among the source files. It is the inverse direction of the same contract.
\<close>

definition toTransactionCommonRaw :: "'a TransactionCommon_scheme \<Rightarrow> TransactionCommonRaw" where
  "toTransactionCommonRaw tx =
     \<lparr> raw_amount = toFixed (amount tx),
       raw_recipient = recipient tx,
       raw_useAllAmount = useAllAmount tx,
       raw_subAccountId = subAccountId tx \<rparr>"

text \<open>
  \<^verbatim>\<open>fromTransactionRaw\<close>: the object literal first, then the four guarded assignments.
  A guard \<^verbatim>\<open>if (rawTx.data)\<close> tests a string, which is truthy when it is present and
  not empty; under the guard the field is present, and \<open>map_option\<close> converts it.
\<close>

definition fromTransactionRaw :: "TransactionRaw \<Rightarrow> Transaction" where
  "fromTransactionRaw rawTx =
     (let common = fromTransactionCommonRaw rawTx;
          tx = \<lparr> amount = amount common,
                 recipient = recipient common,
                 useAllAmount = useAllAmount common,
                 subAccountId = subAccountId common,
                 family = raw_family rawTx,
                 mode = raw_mode rawTx,
                 chainId = raw_chainId rawTx,
                 nonce = raw_nonce rawTx,
                 gasLimit = new_BigNumber (raw_gasLimit rawTx),
                 feesStrategy = raw_feesStrategy rawTx,
                 type = Some (js_Number (raw_type rawTx)),
                 data = None,
                 gasPrice = None,
                 maxFeePerGas = None,
                 maxPriorityFeePerGas = None \<rparr>;
          tx = (if truthy_string (raw_data rawTx)
                then tx\<lparr>data := map_option Buffer_from_hex (raw_data rawTx)\<rparr>
                else tx);
          tx = (if truthy_string (raw_gasPrice rawTx)
                then tx\<lparr>gasPrice := map_option new_BigNumber (raw_gasPrice rawTx)\<rparr>
                else tx);
          tx = (if truthy_string (raw_maxFeePerGas rawTx)
                then tx\<lparr>maxFeePerGas := map_option new_BigNumber (raw_maxFeePerGas rawTx)\<rparr>
                else tx);
          tx = (if truthy_string (raw_maxPriorityFeePerGas rawTx)
                then tx\<lparr>maxPriorityFeePerGas :=
                          map_option new_BigNumber (raw_maxPriorityFeePerGas rawTx)\<rparr>
                else tx)
      in tx)"

text \<open>
  \<^verbatim>\<open>toTransactionRaw\<close>. A guard \<^verbatim>\<open>if (tx.data)\<close> tests a \<^verbatim>\<open>Buffer\<close> or a
  \<^verbatim>\<open>BigNumber\<close>: an object, truthy whenever it is present (an empty buffer and a zero
  included).
\<close>

definition toTransactionRaw :: "Transaction \<Rightarrow> TransactionRaw" where
  "toTransactionRaw tx =
     (let common = toTransactionCommonRaw tx;
          txRaw = \<lparr> raw_amount = raw_amount common,
                    raw_recipient = raw_recipient common,
                    raw_useAllAmount = raw_useAllAmount common,
                    raw_subAccountId = raw_subAccountId common,
                    raw_family = family tx,
                    raw_mode = mode tx,
                    raw_chainId = chainId tx,
                    raw_nonce = nonce tx,
                    raw_gasLimit = toFixed (gasLimit tx),
                    raw_feesStrategy = feesStrategy tx,
                    raw_type = type tx,
                    raw_data = None,
                    raw_gasPrice = None,
                    raw_maxFeePerGas = None,
                    raw_maxPriorityFeePerGas = None \<rparr>;
          txRaw = (if truthy (data tx)
                   then txRaw\<lparr>raw_data := map_option toString_hex (data tx)\<rparr>
                   else txRaw);
          txRaw = (if truthy (gasPrice tx)
                   then txRaw\<lparr>raw_gasPrice := map_option toFixed (gasPrice tx)\<rparr>
                   else txRaw);
          txRaw = (if truthy (maxFeePerGas tx)
                   then txRaw\<lparr>raw_maxFeePerGas := map_option toFixed (maxFeePerGas tx)\<rparr>
                   else txRaw);
          txRaw = (if truthy (maxPriorityFeePerGas tx)
                   then txRaw\<lparr>raw_maxPriorityFeePerGas :=
                                map_option toFixed (maxPriorityFeePerGas tx)\<rparr>
                   else txRaw)
      in txRaw)"

section \<open>Collaborators of the preparer\<close>

text \<open>
  A rejected promise (a network failure, or the ABI encoder of the ethers library
  throwing) is a value \<open>Inl\<close> of a sum type.
\<close>

datatype failure = NetworkError | EncoderError

datatype ValidationError =
  RecipientRequired | InvalidAddressFormat | RecipientIsSenderAddress
  | NotEnoughBalance | AmountRequired | AddressFlagged

text \<open>
  A validation result is a mapping from field name to error, here an association list;
  \<^verbatim>\<open>Object.keys(errors).length\<close> is truthy when it has an entry.
\<close>

type_synonym ValidationErrors = "(string \<times> ValidationError) list"

fun has_keys :: "ValidationErrors \<Rightarrow> bool" where
  "has_keys [] = False"
| "has_keys (_ # _) = True"

text \<open>
  The functions the preparer imports from modules that are not among the source files
  (\<^verbatim>\<open>api/rpc\<close>, \<^verbatim>\<open>getTransactionStatus\<close>, \<^verbatim>\<open>logic\<close>) and from the ethers library
  are parameters of the model. The two validators return the pair
  \<^verbatim>\<open>[errors, warnings]\<close>.
\<close>

record Env =
  getFeesEstimation :: "string \<Rightarrow> failure + FeeData"
  getGasEstimation :: "Account \<Rightarrow> Transaction \<Rightarrow> failure + BigNumber"
  validateRecipient :: "Account \<Rightarrow> Transaction \<Rightarrow> ValidationErrors \<times> ValidationErrors"
  validateAmount ::
    "AccountLike \<Rightarrow> Transaction \<Rightarrow> BigNumber \<Rightarrow> ValidationErrors \<times> ValidationErrors"
  getEstimatedFees :: "Transaction \<Rightarrow> BigNumber"
  encodeFunctionData :: "string \<Rightarrow> string list \<Rightarrow> failure + string"

fun subAccount_id :: "SubAccount \<Rightarrow> string" where
  "subAccount_id (SubTokenAccount ta) = token_id ta"
| "subAccount_id (SubOtherAccount i) = i"

text \<open>
  Modelled from the spec: \<^verbatim>\<open>findSubAccountById\<close> (module \<^verbatim>\<open>account\<close>) is not among
  the source files. The spec's account store offers the sub-account lookup by id: the
  sub-account of the account with that id, if there is one.
\<close>

definition findSubAccountById :: "Account \<Rightarrow> string \<Rightarrow> SubAccount option" where
  "findSubAccountById account i = find (\<lambda>a. subAccount_id a = i) (subAccounts account)"

text \<open>\<^verbatim>\<open>transaction.subAccountId || ""\<close>.\<close>

fun or_empty :: "string option \<Rightarrow> string" where
  "or_empty None = []"
| "or_empty (Some s) = s"

section \<open>Transaction objects in a store\<close>

text \<open>
  \<^verbatim>\<open>getTypedTransaction\<close> deletes fields of the object it is given, so transaction
  objects live in a store: a reference is an index into the list of allocated objects,
  the object literal a function returns allocates a new object at the end, and
  \<^verbatim>\<open>delete\<close> updates the object in place. An object literal that only serves as an
  argument (\<^verbatim>\<open>protoTransaction\<close>) is a value: nothing deletes from it.
\<close>

type_synonym ref = nat

type_synonym heap = "Transaction list"

definition alloc :: "heap \<Rightarrow> Transaction \<Rightarrow> ref \<times> heap" where
  "alloc h v = (length h, h @ [v])"

section \<open>Classification and payload\<close>

text \<open>
  \<^verbatim>\<open>getTypedTransaction\<close>: each branch first deletes from the argument object, then
  returns a new object that spreads the (updated) argument.
\<close>

definition getTypedTransaction :: "ref \<Rightarrow> FeeData \<Rightarrow> heap \<Rightarrow> ref \<times> heap" where
  "getTypedTransaction transaction feeData h =
     (if truthy (fee_maxFeePerGas feeData) \<and> truthy (fee_maxPriorityFeePerGas feeData)
      then
        (let h = h[transaction := (h ! transaction)\<lparr>gasPrice := None\<rparr>]
         in alloc h ((h ! transaction)
              \<lparr>maxFeePerGas := fee_maxFeePerGas feeData,
               maxPriorityFeePerGas := fee_maxPriorityFeePerGas feeData,
               type := Some (JSNum 2)\<rparr>))
      else
        (let h = h[transaction := (h ! transaction)
                     \<lparr>maxFeePerGas := None, maxPriorityFeePerGas := None\<rparr>]
         in alloc h ((h ! transaction)
              \<lparr>gasPrice := Some (case fee_gasPrice feeData of Some g \<Rightarrow> g | None \<Rightarrow> BN 0),
               type := Some (JSNum 0)\<rparr>)))"

text \<open>
  \<^verbatim>\<open>getTransactionData\<close>: the encoder returns a string \<^verbatim>\<open>"0x..."\<close>, of which the
  hexadecimal digits after the prefix are decoded.
\<close>

definition getTransactionData :: "Env \<Rightarrow> Transaction \<Rightarrow> failure + Buffer option" where
  "getTransactionData env transaction =
     (case encodeFunctionData env ''transfer''
             [recipient transaction, toFixed (amount transaction)] of
        Inl e \<Rightarrow> Inl e
      | Inr d \<Rightarrow> Inr (if d \<noteq> [] then Some (Buffer_from_hex (drop 2 d)) else None))"

section \<open>The preparer\<close>

text \<open>
  A local of the source whose name is also a field name carries a prime in the model
  (\<open>amount'\<close>, \<open>gasLimit'\<close>).
\<close>

text \<open>The locals \<^verbatim>\<open>amount\<close> and \<^verbatim>\<open>totalSpent\<close> of \<^verbatim>\<open>prepareCoinTransaction\<close>.\<close>

definition coin_amount :: "Env \<Rightarrow> Account \<Rightarrow> Transaction \<Rightarrow> BigNumber" where
  "coin_amount env account typedTransaction =
     (let estimatedFees = getEstimatedFees env typedTransaction
      in if truthy_bool (useAllAmount typedTransaction)
         then bn_minus (balance account) estimatedFees
         else amount typedTransaction)"

definition coin_totalSpent :: "Env \<Rightarrow> Account \<Rightarrow> Transaction \<Rightarrow> BigNumber" where
  "coin_totalSpent env account typedTransaction =
     (let estimatedFees = getEstimatedFees env typedTransaction
      in bn_plus (coin_amount env account typedTransaction) estimatedFees)"

definition prepareCoinTransaction ::
    "Env \<Rightarrow> Account \<Rightarrow> ref \<Rightarrow> heap \<Rightarrow> (failure + ref) \<times> heap" where
  "prepareCoinTransaction env account r h =
     (let typedTransaction = h ! r;
          amount' = coin_amount env account typedTransaction;
          totalSpent = coin_totalSpent env account typedTransaction;
          protoTransaction = typedTransaction\<lparr>amount := amount'\<rparr>;
          recipientErrors = fst (validateRecipient env account typedTransaction);
          amountErrors =
            fst (validateAmount env (OfAccount account) protoTransaction totalSpent)
      in if has_keys amountErrors \<or> has_keys recipientErrors then (Inr r, h)
         else
           (case getGasEstimation env account protoTransaction of
              Inl e \<Rightarrow> (Inl e, h)
            | Inr gasLimit' \<Rightarrow>
                (case alloc h (protoTransaction\<lparr>amount := amount', gasLimit := gasLimit'\<rparr>) of
                   (r', h') \<Rightarrow> (Inr r', h'))))"

text \<open>The local \<^verbatim>\<open>amount\<close> of \<^verbatim>\<open>prepareTokenTransaction\<close>.\<close>

definition token_amount :: "TokenAccount \<Rightarrow> Transaction \<Rightarrow> BigNumber" where
  "token_amount tokenAccount typedTransaction =
     (if truthy_bool (useAllAmount typedTransaction)
      then token_balance tokenAccount
      else amount typedTransaction)"

definition prepareTokenTransaction ::
    "Env \<Rightarrow> Account \<Rightarrow> TokenAccount \<Rightarrow> ref \<Rightarrow> heap \<Rightarrow> (failure + ref) \<times> heap" where
  "prepareTokenTransaction env account tokenAccount r h =
     (let typedTransaction = h ! r;
          amount' = token_amount tokenAccount typedTransaction;
          protoTransaction = typedTransaction\<lparr>amount := BN 0\<rparr>;
          recipientErrors = fst (validateRecipient env account protoTransaction);
          amountErrors =
            fst (validateAmount env (OfTokenAccount tokenAccount) protoTransaction amount')
      in if has_keys amountErrors \<or> has_keys recipientErrors then (Inr r, h)
         else
           (case getTransactionData env (typedTransaction\<lparr>amount := amount'\<rparr>) of
              Inl e \<Rightarrow> (Inl e, h)
            | Inr d \<Rightarrow>
                (case getGasEstimation env account
                        (typedTransaction
                           \<lparr>recipient := contractAddress (token tokenAccount), data := d\<rparr>) of
                   Inl e \<Rightarrow> (Inl e, h)
                 | Inr gasLimit' \<Rightarrow>
                     (case alloc h (typedTransaction\<lparr>data := d, gasLimit := gasLimit'\<rparr>) of
                        (r', h') \<Rightarrow> (Inr r', h')))))"

text \<open>
  \<^verbatim>\<open>prepareTransaction\<close>: the fee data is awaited first; the sub-account is looked up
  on the draft as it was passed in, then the draft is classified.
\<close>

definition prepareTransaction ::
    "Env \<Rightarrow> Account \<Rightarrow> ref \<Rightarrow> heap \<Rightarrow> (failure + ref) \<times> heap" where
  "prepareTransaction env account transaction h =
     (case getFeesEstimation env (currency account) of
        Inl e \<Rightarrow> (Inl e, h)
      | Inr feeData \<Rightarrow>
          (let subAccount =
                 findSubAccountById account (or_empty (subAccountId (h ! transaction)))
           in case getTypedTransaction transaction feeData h of
                (typedTransaction, h1) \<Rightarrow>
                  (case subAccount of
                     Some (SubTokenAccount tokenAccount) \<Rightarrow>
                       prepareTokenTransaction env account tokenAccount typedTransaction h1
                   | _ \<Rightarrow> prepareCoinTransaction env account typedTransaction h1)))"


section \<open>An instance of the collaborators\<close>

text \<open>
  The theorems about the preparer hold for every \<open>Env\<close>. To apply them at concrete
  inputs the parameters are instantiated: the validators as the spec describes them, the
  others by simple functions.
\<close>

text \<open>
  Modelled from the spec: \<^verbatim>\<open>validateRecipient\<close> (module \<^verbatim>\<open>getTransactionStatus\<close>) is
  not among the source files. The spec's recipient check fails with
  \<^verbatim>\<open>RecipientRequired\<close> if the recipient is empty, \<^verbatim>\<open>InvalidAddressFormat\<close> if it
  fails the chain's address-format test, \<^verbatim>\<open>RecipientIsSenderAddress\<close> if it equals the
  account's own receiving address, and gives an advisory warning for an address that is
  valid but flagged.
\<close>

definition spec_validateRecipient ::
    "(string \<Rightarrow> bool) \<Rightarrow> (string \<Rightarrow> bool) \<Rightarrow> Account \<Rightarrow> Transaction
      \<Rightarrow> ValidationErrors \<times> ValidationErrors" where
  "spec_validateRecipient isValidAddress isFlagged account tx =
     (if recipient tx = [] then ([(''recipient'', RecipientRequired)], [])
      else if \<not> isValidAddress (recipient tx)
        then ([(''recipient'', InvalidAddressFormat)], [])
      else if recipient tx = freshAddress account
        then ([(''recipient'', RecipientIsSenderAddress)], [])
      else ([], if isFlagged (recipient tx) then [(''recipient'', AddressFlagged)] else []))"

fun spendable :: "AccountLike \<Rightarrow> BigNumber" where
  "spendable (OfAccount a) = balance a"
| "spendable (OfTokenAccount ta) = token_balance ta"

text \<open>
  Modelled from the spec: \<^verbatim>\<open>validateAmount\<close> (module \<^verbatim>\<open>getTransactionStatus\<close>) is not
  among the source files. The spec's amount check fails with \<^verbatim>\<open>NotEnoughBalance\<close> if
  the total spend exceeds the spendable balance (the account's for a coin transfer, the
  token account's for a token transfer), and with \<^verbatim>\<open>AmountRequired\<close> if the amount is
  zero and \<^verbatim>\<open>useAllAmount\<close> is not set.
\<close>

definition spec_validateAmount ::
    "AccountLike \<Rightarrow> Transaction \<Rightarrow> BigNumber \<Rightarrow> ValidationErrors \<times> ValidationErrors" where
  "spec_validateAmount account tx totalSpent =
     (if bn_isGreaterThan totalSpent (spendable account)
      then ([(''amount'', NotEnoughBalance)], [])
      else if bn_isZero (amount tx) \<and> \<not> truthy_bool (useAllAmount tx)
        then ([(''amount'', AmountRequired)], [])
      else ([], []))"

text \<open>
  The address-format test and the encoder of the instance follow the ethers library on
  lower-case input. An address is \<^verbatim>\<open>0x\<close> and forty lower-case hexadecimal digits (a
  mixed-case address would need its checksum, which the instance does not compute: it
  rejects it). \<^verbatim>\<open>encodeFunctionData("transfer", [to, value])\<close> throws unless
  \<^verbatim>\<open>to\<close> is an address and \<^verbatim>\<open>value\<close> the decimal notation of an unsigned 256-bit
  integer; otherwise it returns \<^verbatim>\<open>0x\<close>, the selector \<^verbatim>\<open>a9059cbb\<close>, and the address and
  the value as two 32-byte words.
\<close>

definition is_address :: "string \<Rightarrow> bool" where
  "is_address a =
     (length a = 42 \<and> take 2 a = ''0x''
      \<and> list_all (\<lambda>c. c \<in> set ''0123456789abcdef'') (drop 2 a))"

definition parse_uint256 :: "string \<Rightarrow> nat option" where
  "parse_uint256 s =
     (if s = [] then None
      else case parseDigits 0 s of
             None \<Rightarrow> None
           | Some n \<Rightarrow> if n < 2 ^ 256 then Some n else None)"

fun hexNat :: "nat \<Rightarrow> string" where
  "hexNat n =
     (if n < 16 then [hexDigit n] else hexNat (n div 16) @ [hexDigit (n mod 16)])"

definition word32 :: "string \<Rightarrow> string" where
  "word32 digits = replicate (64 - length digits) CHR ''0'' @ digits"

definition example_encodeFunctionData :: "string \<Rightarrow> string list \<Rightarrow> failure + string" where
  "example_encodeFunctionData f args =
     (case args of
        [to, v] \<Rightarrow>
          (if f = ''transfer'' \<and> is_address to
           then (case parse_uint256 v of
                   None \<Rightarrow> Inl EncoderError
                 | Some n \<Rightarrow>
                     Inr (''0xa9059cbb'' @ word32 (drop 2 to) @ word32 (hexNat n)))
           else Inl EncoderError)
      | _ \<Rightarrow> Inl EncoderError)"

text \<open>
  A fee estimate of gas price (or maximum fee) times gas limit, a legacy network that
  quotes a gas price of 2, and a fee-market network.
\<close>

definition example_fees :: "Transaction \<Rightarrow> BigNumber" where
  "example_fees tx =
     (case gasPrice tx of
        Some g \<Rightarrow> bn_multipliedBy g (gasLimit tx)
      | None \<Rightarrow>
          (case maxFeePerGas tx of
             Some m \<Rightarrow> bn_multipliedBy m (gasLimit tx)
           | None \<Rightarrow> BN 0))"

definition legacy_feeData :: FeeData where
  "legacy_feeData =
     \<lparr> fee_maxFeePerGas = None, fee_maxPriorityFeePerGas = None, fee_gasPrice = Some (BN 2) \<rparr>"

definition eip1559_feeData :: FeeData where
  "eip1559_feeData =
     \<lparr> fee_maxFeePerGas = Some (BN 30), fee_maxPriorityFeePerGas = Some (BN 3),
       fee_gasPrice = None \<rparr>"

text \<open>Three addresses: a recipient, the account's own address, a token contract.\<close>

definition example_recipient :: string where
  "example_recipient = ''0x00000000000000000000000000000000000000bb''"

definition example_sender :: string where
  "example_sender = ''0x00000000000000000000000000000000000000aa''"

definition example_contract :: string where
  "example_contract = ''0x00000000000000000000000000000000000000c0''"

definition example_env :: "FeeData \<Rightarrow> Env" where
  "example_env feeData =
     \<lparr> getFeesEstimation = (\<lambda>c. Inr feeData),
       getGasEstimation = (\<lambda>account tx. Inr (BN 21000)),
       validateRecipient = spec_validateRecipient is_address (\<lambda>a. False),
       validateAmount = spec_validateAmount,
       getEstimatedFees = example_fees,
       encodeFunctionData = example_encodeFunctionData \<rparr>"

definition example_token :: TokenAccount where
  "example_token =
     \<lparr> token_id = ''acc+usdt'', token_balance = BN 50,
       token = \<lparr> contractAddress = example_contract \<rparr> \<rparr>"

definition example_account :: Account where
  "example_account =
     \<lparr> currency = ''ethereum'', freshAddress = example_sender, balance = BN 100000000,
       subAccounts = [SubOtherAccount ''acc+child'', SubTokenAccount example_token] \<rparr>"

text \<open>
  A legacy draft that sends everything to the recipient, the same draft with no recipient
  yet, and a draft that sends all of the token. The last account is the example account
  with one sub-account only, a token account whose id is the empty string.
\<close>

definition example_draft :: Transaction where
  "example_draft =
     \<lparr> amount = BN 0, recipient = example_recipient, useAllAmount = Some True, subAccountId = None,
       family = ''evm'', mode = ''send'', chainId = JSNum 1, nonce = JSNum 7,
       gasLimit = BN 5000, feesStrategy = Some ''medium'', type = Some (JSNum 0),
       data = None, gasPrice = Some (BN 2), maxFeePerGas = None,
       maxPriorityFeePerGas = None \<rparr>"

definition example_incomplete_draft :: Transaction where
  "example_incomplete_draft = example_draft\<lparr>recipient := []\<rparr>"

definition example_token_draft :: Transaction where
  "example_token_draft = example_draft\<lparr>amount := BN 7, subAccountId := Some ''acc+usdt''\<rparr>"

definition example_account_empty_id :: Account where
  "example_account_empty_id =
     example_account\<lparr>subAccounts := [SubTokenAccount (example_token\<lparr>token_id := []\<rparr>)]\<rparr>"

section \<open>Decimal and hexadecimal strings are read back exactly\<close>

declare showNat.simps [simp del]

lemma showNat_small: "n < 10 \<Longrightarrow> showNat n = [digitChar n]"
  by (subst showNat.simps) simp

lemma showNat_large: "\<not> n < 10 \<Longrightarrow> showNat n = showNat (n div 10) @ [digitChar (n mod 10)]"
  by (subst showNat.simps) simp

lemma digitVal_digitChar: "n < 10 \<Longrightarrow> digitVal (digitChar n) = Some n"
proof -
  assume "n < 10"
  then consider "n = 0" | "n = 1" | "n = 2" | "n = 3" | "n = 4" | "n = 5" | "n = 6" | "n = 7" | "n = 8" | "n = 9"
    by atomize_elim arith
  then show ?thesis
    by cases (simp_all add: digitVal_def digitChar_def)
qed

lemma digitChar_not_minus: "n < 10 \<Longrightarrow> digitChar n \<noteq> CHR ''-''"
proof -
  assume "n < 10"
  then consider "n = 0" | "n = 1" | "n = 2" | "n = 3" | "n = 4" | "n = 5" | "n = 6" | "n = 7" | "n = 8" | "n = 9"
    by atomize_elim arith
  then show ?thesis
    by cases (simp_all add: digitChar_def)
qed

lemma parseDigits_snoc:
  "parseDigits acc (xs @ [c]) =
     (case parseDigits acc xs of None \<Rightarrow> None
      | Some a \<Rightarrow> (case digitVal c of None \<Rightarrow> None | Some d \<Rightarrow> Some (10 * a + d)))"
  by (induction xs arbitrary: acc) (auto split: option.splits)

lemma parseDigits_showNat: "parseDigits 0 (showNat n) = Some n"
proof (induction n rule: showNat.induct)
  case (1 n)
  show ?case
  proof (cases "n < 10")
    case True
    then show ?thesis by (simp add: showNat_small digitVal_digitChar)
  next
    case False
    with 1 have "parseDigits 0 (showNat (n div 10)) = Some (n div 10)" by simp
    with False show ?thesis
      by (simp add: showNat_large parseDigits_snoc digitVal_digitChar)
  qed
qed

lemma showNat_Cons: "\<exists>c cs. showNat n = c # cs \<and> c \<noteq> CHR ''-''"
proof (induction n rule: showNat.induct)
  case (1 n)
  show ?case
  proof (cases "n < 10")
    case True
    then show ?thesis by (simp add: showNat_small digitChar_not_minus)
  next
    case False
    with 1 obtain c cs where "showNat (n div 10) = c # cs" "c \<noteq> CHR ''-''" by auto
    with False show ?thesis
      by (simp add: showNat_large)
  qed
qed

lemma parseNat_showNat: "parseNat (showNat n) = BN (int n)"
  using showNat_Cons [of n] by (auto simp: parseNat_def parseDigits_showNat)

lemma new_BigNumber_showNat: "new_BigNumber (showNat n) = BN (int n)"
proof -
  obtain c cs where s: "showNat n = c # cs" and c: "c \<noteq> CHR ''-''"
    using showNat_Cons by blast
  have "new_BigNumber (c # cs) = parseNat (c # cs)" using c by simp
  then show ?thesis using parseNat_showNat [of n] by (simp add: s)
qed

lemma new_BigNumber_toFixed: "new_BigNumber (toFixed x) = x"
proof (cases x)
  case (BN i)
  then show ?thesis
    by (simp add: new_BigNumber_showNat parseNat_showNat)
next
  case BN_NaN
  then show ?thesis by (simp add: parseNat_def digitVal_def)
qed

lemma showNat_nonempty: "showNat n \<noteq> []"
  using showNat_Cons [of n] by auto

lemma toFixed_nonempty: "toFixed x \<noteq> []"
  by (cases x) (simp_all add: showNat_nonempty)

lemma hexVal_hexDigit: "n < 16 \<Longrightarrow> hexVal (hexDigit n) = Some n"
proof -
  assume "n < 16"
  then consider "n = 0" | "n = 1" | "n = 2" | "n = 3" | "n = 4" | "n = 5" | "n = 6" | "n = 7"
    | "n = 8" | "n = 9" | "n = 10" | "n = 11" | "n = 12" | "n = 13" | "n = 14" | "n = 15"
    by atomize_elim arith
  then show ?thesis
    by cases (simp_all add: hexVal_def hexDigit_def)
qed

lemma Buffer_from_hex_toString_hex: "Buffer_from_hex (toString_hex bs) = bs"
proof (induction bs)
  case Nil
  show ?case by simp
next
  case (Cons b bs)
  have "unat b < 256" using unsigned_less [of b, where 'a = nat] by simp
  then have hi: "unat b div 16 < 16" by simp
  have lo: "unat b mod 16 < 16" by simp
  show ?case using Cons
    by (simp add: hexVal_hexDigit [OF hi] hexVal_hexDigit [OF lo])
qed

lemma toString_hex_empty: "(toString_hex bs = []) = (bs = [])"
  by (cases bs) simp_all

section \<open>The codec, field by field\<close>

lemma toTransactionRaw_literal:
  "toTransactionRaw tx =
     \<lparr> raw_amount = toFixed (amount tx),
       raw_recipient = recipient tx,
       raw_useAllAmount = useAllAmount tx,
       raw_subAccountId = subAccountId tx,
       raw_family = family tx,
       raw_mode = mode tx,
       raw_chainId = chainId tx,
       raw_nonce = nonce tx,
       raw_gasLimit = toFixed (gasLimit tx),
       raw_feesStrategy = feesStrategy tx,
       raw_type = type tx,
       raw_data = map_option toString_hex (data tx),
       raw_gasPrice = map_option toFixed (gasPrice tx),
       raw_maxFeePerGas = map_option toFixed (maxFeePerGas tx),
       raw_maxPriorityFeePerGas = map_option toFixed (maxPriorityFeePerGas tx) \<rparr>"
  by (cases "data tx"; cases "gasPrice tx"; cases "maxFeePerGas tx";
      cases "maxPriorityFeePerGas tx")
    (simp_all add: toTransactionRaw_def toTransactionCommonRaw_def Let_def)

lemma fromTransactionRaw_literal:
  "fromTransactionRaw raw =
     \<lparr> amount = new_BigNumber (raw_amount raw),
       recipient = raw_recipient raw,
       useAllAmount = raw_useAllAmount raw,
       subAccountId = raw_subAccountId raw,
       family = raw_family raw,
       mode = raw_mode raw,
       chainId = raw_chainId raw,
       nonce = raw_nonce raw,
       gasLimit = new_BigNumber (raw_gasLimit raw),
       feesStrategy = raw_feesStrategy raw,
       type = Some (js_Number (raw_type raw)),
       data = (if truthy_string (raw_data raw)
               then map_option Buffer_from_hex (raw_data raw) else None),
       gasPrice = (if truthy_string (raw_gasPrice raw)
                   then map_option new_BigNumber (raw_gasPrice raw) else None),
       maxFeePerGas = (if truthy_string (raw_maxFeePerGas raw)
                       then map_option new_BigNumber (raw_maxFeePerGas raw) else None),
       maxPriorityFeePerGas =
         (if truthy_string (raw_maxPriorityFeePerGas raw)
          then map_option new_BigNumber (raw_maxPriorityFeePerGas raw) else None) \<rparr>"
  by (simp add: fromTransactionRaw_def fromTransactionCommonRaw_def Let_def)

lemma truthy_string_toFixed: "truthy_string (map_option toFixed x) = (x \<noteq> None)"
  by (cases x) (simp_all add: toFixed_nonempty)

lemma truthy_string_toString_hex:
  "truthy_string (map_option toString_hex d) = (d \<noteq> None \<and> d \<noteq> Some [])"
  by (cases d) (simp_all add: toString_hex_empty)

lemma map_option_new_BigNumber_toFixed:
  "map_option new_BigNumber (map_option toFixed x) = x"
  by (cases x) (simp_all add: new_BigNumber_toFixed)

lemma map_option_Buffer_from_hex_toString_hex:
  "map_option Buffer_from_hex (map_option toString_hex d) = d"
  by (cases d) (simp_all add: Buffer_from_hex_toString_hex)

section \<open>Properties of the codec\<close>

text \<open>
  C1, as the code has it. The round trip \<open>fromTransactionRaw (toTransactionRaw tx)\<close>
  gives back \<open>tx\<close>, every field equal (decimal fields exactly, the payload through
  hexadecimal, an absent fee field absent and a present one preserved), for every
  transaction whose data payload is absent or not empty and whose type discriminator is
  present.
\<close>

theorem codec_round_trip:
  assumes "data tx \<noteq> Some []" and "type tx \<noteq> None"
  shows "fromTransactionRaw (toTransactionRaw tx) = tx"
proof (rule Transaction.equality)
  show "type (fromTransactionRaw (toTransactionRaw tx)) = type tx"
    using assms(2) by (auto simp: fromTransactionRaw_literal toTransactionRaw_literal)
  show "data (fromTransactionRaw (toTransactionRaw tx)) = data tx"
    using assms(1)
    by (simp add: fromTransactionRaw_literal toTransactionRaw_literal
        truthy_string_toString_hex map_option_Buffer_from_hex_toString_hex)
qed (simp_all add: fromTransactionRaw_literal toTransactionRaw_literal new_BigNumber_toFixed
      truthy_string_toFixed map_option_new_BigNumber_toFixed)

text \<open>The round trip at a draft with a three-byte payload and a negative amount.\<close>

theorem codec_round_trip_witness:
  "data (example_draft\<lparr>data := Some [1, 255, 16], amount := BN (- 120)\<rparr>) \<noteq> Some []
   \<and> type (example_draft\<lparr>data := Some [1, 255, 16], amount := BN (- 120)\<rparr>) \<noteq> None
   \<and> fromTransactionRaw
        (toTransactionRaw (example_draft\<lparr>data := Some [1, 255, 16], amount := BN (- 120)\<rparr>))
      = example_draft\<lparr>data := Some [1, 255, 16], amount := BN (- 120)\<rparr>"
  using codec_round_trip [of "example_draft\<lparr>data := Some [1, 255, 16], amount := BN (- 120)\<rparr>"]
  by (simp add: example_draft_def)

text \<open>
  C1 as stated fails at two transactions: one whose payload is the empty buffer (it comes
  back with no payload), and one with no type discriminator (it comes back with type
  \<^verbatim>\<open>NaN\<close>).
\<close>

theorem codec_round_trip_counterexample:
  "fromTransactionRaw (toTransactionRaw (example_draft\<lparr>data := Some []\<rparr>))
     \<noteq> example_draft\<lparr>data := Some []\<rparr>
   \<and> fromTransactionRaw (toTransactionRaw (example_draft\<lparr>type := None\<rparr>))
     \<noteq> example_draft\<lparr>type := None\<rparr>"
proof -
  have "data (fromTransactionRaw (toTransactionRaw (example_draft\<lparr>data := Some []\<rparr>))) = None"
    by (simp add: fromTransactionRaw_literal toTransactionRaw_literal)
  then have a: "fromTransactionRaw (toTransactionRaw (example_draft\<lparr>data := Some []\<rparr>))
     \<noteq> example_draft\<lparr>data := Some []\<rparr>"
    by (auto dest: arg_cong [where f = data])
  have "type (fromTransactionRaw (toTransactionRaw (example_draft\<lparr>type := None\<rparr>)))
      = Some JSNaN"
    by (simp add: fromTransactionRaw_literal toTransactionRaw_literal)
  then have b: "fromTransactionRaw (toTransactionRaw (example_draft\<lparr>type := None\<rparr>))
     \<noteq> example_draft\<lparr>type := None\<rparr>"
    by (auto dest: arg_cong [where f = type])
  from a b show ?thesis by simp
qed

text \<open>
  C10. A transaction whose data is the empty buffer serializes to a raw form whose data
  is the empty string; a raw form whose data is the empty string parses to a transaction
  with no data; so the empty payload does not survive the round trip.
\<close>

theorem empty_data_lost:
  "raw_data (toTransactionRaw (tx\<lparr>data := Some []\<rparr>)) = Some []
   \<and> data (fromTransactionRaw (raw\<lparr>raw_data := Some []\<rparr>)) = None
   \<and> data (fromTransactionRaw (toTransactionRaw (tx\<lparr>data := Some []\<rparr>))) = None"
  by (simp add: fromTransactionRaw_literal toTransactionRaw_literal)

text \<open>
  C6, evaluated on the code. With the type absent on the raw form the parsed type is
  \<^verbatim>\<open>Number(undefined)\<close>, which is \<^verbatim>\<open>NaN\<close> and not 0; a type that is present is
  preserved.
\<close>

theorem type_absent_is_NaN:
  "type (fromTransactionRaw (raw\<lparr>raw_type := None\<rparr>)) = Some JSNaN
   \<and> type (fromTransactionRaw (raw\<lparr>raw_type := Some n\<rparr>)) = Some n"
  by (simp add: fromTransactionRaw_literal)

section \<open>Facts about the instance\<close>

declare hexNat.simps [simp del]

lemma is_address_examples:
  "is_address example_recipient" "is_address example_sender" "is_address example_contract"
  by (simp_all add: is_address_def example_recipient_def example_sender_def example_contract_def)

lemma example_recipient_not_sender: "example_recipient \<noteq> example_sender"
  by (simp add: example_recipient_def example_sender_def)

lemma example_recipient_nonempty: "example_recipient \<noteq> []"
  by (simp add: example_recipient_def)

lemma parse_uint256_toFixed:
  assumes "0 \<le> n" and "n < 2 ^ 256"
  shows "parse_uint256 (toFixed (BN n)) = Some (nat n)"
proof -
  have "nat n < 2 ^ 256" using assms by (simp add: nat_less_iff)
  then show ?thesis
    using assms(1) by (simp add: parse_uint256_def showNat_nonempty parseDigits_showNat)
qed

lemma example_encodeFunctionData_transfer:
  assumes "is_address to" and "0 \<le> n" and "n < 2 ^ 256"
  shows "example_encodeFunctionData ''transfer'' [to, toFixed (BN n)]
           = Inr (''0xa9059cbb'' @ word32 (drop 2 to) @ word32 (hexNat (nat n)))"
  using assms(1)
  by (simp add: example_encodeFunctionData_def parse_uint256_toFixed [OF assms(2,3)]
      del: toFixed.simps)


lemma example_getTransactionData:
  assumes "is_address (recipient tx)" and "amount tx = BN n" and "0 \<le> n" and "n < 2 ^ 256"
  shows "getTransactionData (example_env feeData) tx =
           Inr (Some (Buffer_from_hex
                  (drop 2 (''0xa9059cbb'' @ word32 (drop 2 (recipient tx))
                            @ word32 (hexNat (nat n))))))"
proof -
  have "encodeFunctionData (example_env feeData) ''transfer''
          [recipient tx, toFixed (amount tx)]
        = Inr (''0xa9059cbb'' @ word32 (drop 2 (recipient tx)) @ word32 (hexNat (nat n)))"
    using example_encodeFunctionData_transfer [OF assms(1,3,4)]
    by (simp add: example_env_def assms(2) del: toFixed.simps)
  then show ?thesis
    by (simp add: getTransactionData_def del: toFixed.simps)
qed

lemma example_payload:
  "Buffer_from_hex
     (drop 2 (''0xa9059cbb'' @ word32 (drop 2 example_recipient) @ word32 (hexNat 50)))
   = [169, 5, 156, 187] @ replicate 31 0 @ [187] @ replicate 31 0 @ [50]"
  by code_simp

lemma example_getGasEstimation:
  "getGasEstimation (example_env feeData) account tx = Inr (BN 21000)"
  by (simp add: example_env_def)

lemma example_validateRecipient_valid:
  assumes "recipient tx = example_recipient" and "freshAddress account = example_sender"
  shows "\<not> has_keys (fst (validateRecipient (example_env feeData) account tx))"
  using assms
  by (simp add: example_env_def spec_validateRecipient_def is_address_examples
      example_recipient_not_sender example_recipient_nonempty)

lemma example_validateAmount_useAllAmount:
  assumes "\<not> bn_isGreaterThan totalSpent (spendable account)"
    and "truthy_bool (useAllAmount tx)"
  shows "\<not> has_keys (fst (validateAmount (example_env feeData) account tx totalSpent))"
  using assms by (simp add: example_env_def spec_validateAmount_def)

section \<open>Classification\<close>

lemma getTypedTransaction_eq:
  assumes "r < length h"
  shows "getTypedTransaction r feeData h =
     (length h,
      (if truthy (fee_maxFeePerGas feeData) \<and> truthy (fee_maxPriorityFeePerGas feeData)
       then h[r := (h ! r)\<lparr>gasPrice := None\<rparr>]
            @ [(h ! r)\<lparr>gasPrice := None,
                       maxFeePerGas := fee_maxFeePerGas feeData,
                       maxPriorityFeePerGas := fee_maxPriorityFeePerGas feeData,
                       type := Some (JSNum 2)\<rparr>]
       else h[r := (h ! r)\<lparr>maxFeePerGas := None, maxPriorityFeePerGas := None\<rparr>]
            @ [(h ! r)\<lparr>maxFeePerGas := None, maxPriorityFeePerGas := None,
                       gasPrice := Some (case fee_gasPrice feeData of Some g \<Rightarrow> g | None \<Rightarrow> BN 0),
                       type := Some (JSNum 0)\<rparr>]))"
  using assms by (simp add: getTypedTransaction_def alloc_def Let_def)

text \<open>
  C3. For every fee snapshot the transaction returned by \<open>getTypedTransaction\<close> has
  one of two shapes. If the snapshot carries both \<^verbatim>\<open>maxFeePerGas\<close> and
  \<^verbatim>\<open>maxPriorityFeePerGas\<close>: type 2, those two fields set to the snapshot's, and no
  \<^verbatim>\<open>gasPrice\<close>. Otherwise: type 0, \<^verbatim>\<open>gasPrice\<close> set to the snapshot's or to zero if
  it has none, and neither fee-market field.
\<close>

theorem getTypedTransaction_shape:
  assumes "r < length h"
  shows "case getTypedTransaction r feeData h of
           (r', h') \<Rightarrow>
             (if truthy (fee_maxFeePerGas feeData) \<and> truthy (fee_maxPriorityFeePerGas feeData)
              then type (h' ! r') = Some (JSNum 2)
                 \<and> maxFeePerGas (h' ! r') = fee_maxFeePerGas feeData
                 \<and> truthy (maxFeePerGas (h' ! r'))
                 \<and> maxPriorityFeePerGas (h' ! r') = fee_maxPriorityFeePerGas feeData
                 \<and> truthy (maxPriorityFeePerGas (h' ! r'))
                 \<and> gasPrice (h' ! r') = None
              else type (h' ! r') = Some (JSNum 0)
                 \<and> gasPrice (h' ! r')
                     = Some (case fee_gasPrice feeData of Some g \<Rightarrow> g | None \<Rightarrow> BN 0)
                 \<and> maxFeePerGas (h' ! r') = None
                 \<and> maxPriorityFeePerGas (h' ! r') = None)"
  by (simp add: getTypedTransaction_eq [OF assms] nth_append)

text \<open>Both shapes, at a fee-market snapshot and at a legacy one.\<close>

theorem getTypedTransaction_shape_witness:
  "(0::nat) < length [example_draft]
   \<and> (case getTypedTransaction 0 eip1559_feeData [example_draft] of
         (r', h') \<Rightarrow>
           type (h' ! r') = Some (JSNum 2) \<and> maxFeePerGas (h' ! r') = Some (BN 30)
           \<and> maxPriorityFeePerGas (h' ! r') = Some (BN 3) \<and> gasPrice (h' ! r') = None)
   \<and> (case getTypedTransaction 0 legacy_feeData [example_draft\<lparr>maxFeePerGas := Some (BN 9)\<rparr>] of
         (r', h') \<Rightarrow>
           type (h' ! r') = Some (JSNum 0) \<and> gasPrice (h' ! r') = Some (BN 2)
           \<and> maxFeePerGas (h' ! r') = None \<and> maxPriorityFeePerGas (h' ! r') = None)"
  using getTypedTransaction_shape [of 0 "[example_draft]" eip1559_feeData]
    getTypedTransaction_shape [of 0 "[example_draft\<lparr>maxFeePerGas := Some (BN 9)\<rparr>]" legacy_feeData]
  by (simp add: eip1559_feeData_def legacy_feeData_def split: prod.splits)

section \<open>The preparer on a validation failure\<close>

lemma prepareCoinTransaction_invalid:
  assumes "has_keys (fst (validateAmount env (OfAccount account)
                            ((h ! r)\<lparr>amount := coin_amount env account (h ! r)\<rparr>)
                            (coin_totalSpent env account (h ! r))))
           \<or> has_keys (fst (validateRecipient env account (h ! r)))"
  shows "prepareCoinTransaction env account r h = (Inr r, h)"
  using assms by (simp add: prepareCoinTransaction_def Let_def)

lemma prepareTokenTransaction_invalid:
  assumes "has_keys (fst (validateAmount env (OfTokenAccount tokenAccount)
                            ((h ! r)\<lparr>amount := BN 0\<rparr>) (token_amount tokenAccount (h ! r))))
           \<or> has_keys (fst (validateRecipient env account ((h ! r)\<lparr>amount := BN 0\<rparr>)))"
  shows "prepareTokenTransaction env account tokenAccount r h = (Inr r, h)"
  using assms by (simp add: prepareTokenTransaction_def Let_def)

lemma prepareCoinTransaction_valid:
  assumes "\<not> has_keys (fst (validateAmount env (OfAccount account)
                              ((h ! r)\<lparr>amount := coin_amount env account (h ! r)\<rparr>)
                              (coin_totalSpent env account (h ! r))))"
    and "\<not> has_keys (fst (validateRecipient env account (h ! r)))"
    and "getGasEstimation env account ((h ! r)\<lparr>amount := coin_amount env account (h ! r)\<rparr>)
           = Inr g"
  shows "prepareCoinTransaction env account r h
           = (Inr (length h),
              h @ [(h ! r)\<lparr>amount := coin_amount env account (h ! r), gasLimit := g\<rparr>])"
  using assms by (simp add: prepareCoinTransaction_def Let_def alloc_def)

lemma prepareTransaction_dispatch:
  assumes "getFeesEstimation env (currency account) = Inr feeData"
    and "getTypedTransaction r feeData h = (r1, h1)"
  shows "prepareTransaction env account r h =
     (case findSubAccountById account (or_empty (subAccountId (h ! r))) of
        Some (SubTokenAccount tokenAccount) \<Rightarrow>
          prepareTokenTransaction env account tokenAccount r1 h1
      | _ \<Rightarrow> prepareCoinTransaction env account r1 h1)"
  using assms by (simp add: prepareTransaction_def Let_def)

lemma example_typed_incomplete:
  "getTypedTransaction 0 eip1559_feeData [example_incomplete_draft] =
     (1, [example_incomplete_draft\<lparr>gasPrice := None\<rparr>,
          example_incomplete_draft\<lparr>gasPrice := None, maxFeePerGas := Some (BN 30),
            maxPriorityFeePerGas := Some (BN 3), type := Some (JSNum 2)\<rparr>])"
  by (simp add: getTypedTransaction_eq eip1559_feeData_def)

lemma example_getFeesEstimation:
  "getFeesEstimation (example_env feeData) c = Inr feeData"
  by (simp add: example_env_def)

lemma example_no_subAccount:
  "findSubAccountById example_account [] = None"
  by (simp add: findSubAccountById_def example_account_def example_token_def)

lemma example_incomplete_subAccountId:
  "subAccountId example_incomplete_draft = None"
  by (simp add: example_incomplete_draft_def example_draft_def)

lemma example_incomplete_invalid:
  "has_keys (fst (validateRecipient (example_env feeData) example_account
               (example_incomplete_draft\<lparr>gasPrice := g, maxFeePerGas := m,
                 maxPriorityFeePerGas := p, type := t\<rparr>)))"
  by (simp add: example_env_def spec_validateRecipient_def example_incomplete_draft_def)

lemma example_prepare_incomplete:
  "prepareTransaction (example_env eip1559_feeData) example_account 0
        [example_incomplete_draft]
       = (Inr 1, [example_incomplete_draft\<lparr>gasPrice := None\<rparr>,
            example_incomplete_draft\<lparr>gasPrice := None, maxFeePerGas := Some (BN 30),
              maxPriorityFeePerGas := Some (BN 3), type := Some (JSNum 2)\<rparr>])"
proof -
  have "prepareCoinTransaction (example_env eip1559_feeData) example_account 1
          [example_incomplete_draft\<lparr>gasPrice := None\<rparr>,
            example_incomplete_draft\<lparr>gasPrice := None, maxFeePerGas := Some (BN 30),
              maxPriorityFeePerGas := Some (BN 3), type := Some (JSNum 2)\<rparr>]
       = (Inr 1, [example_incomplete_draft\<lparr>gasPrice := None\<rparr>,
            example_incomplete_draft\<lparr>gasPrice := None, maxFeePerGas := Some (BN 30),
              maxPriorityFeePerGas := Some (BN 3), type := Some (JSNum 2)\<rparr>])"
    by (rule prepareCoinTransaction_invalid) (simp add: example_incomplete_invalid)
  then show ?thesis
    by (simp add: prepareTransaction_dispatch [OF example_getFeesEstimation example_typed_incomplete]
        example_incomplete_subAccountId example_no_subAccount)
qed

text \<open>
  C2, as the code has it. When the fee data was fetched and validation fails (recipient
  errors or amount errors not empty, on either path), \<open>prepareTransaction\<close> raises
  nothing and returns the classified transaction, the object that
  \<open>getTypedTransaction\<close> built: the input draft with its fee fields and type set from
  the fee snapshot, and every other field as in the draft.
\<close>

theorem prepareTransaction_validation_failure:
  assumes "r < length h"
    and "getFeesEstimation env (currency account) = Inr feeData"
    and "getTypedTransaction r feeData h = (r1, h1)"
    and "case findSubAccountById account (or_empty (subAccountId (h ! r))) of
           Some (SubTokenAccount tokenAccount) \<Rightarrow>
             has_keys (fst (validateAmount env (OfTokenAccount tokenAccount)
                              ((h1 ! r1)\<lparr>amount := BN 0\<rparr>)
                              (token_amount tokenAccount (h1 ! r1))))
             \<or> has_keys (fst (validateRecipient env account ((h1 ! r1)\<lparr>amount := BN 0\<rparr>)))
         | _ \<Rightarrow>
             has_keys (fst (validateAmount env (OfAccount account)
                              ((h1 ! r1)\<lparr>amount := coin_amount env account (h1 ! r1)\<rparr>)
                              (coin_totalSpent env account (h1 ! r1))))
             \<or> has_keys (fst (validateRecipient env account (h1 ! r1)))"
  shows "prepareTransaction env account r h = (Inr r1, h1)
       \<and> h1 ! r1 =
           (if truthy (fee_maxFeePerGas feeData) \<and> truthy (fee_maxPriorityFeePerGas feeData)
            then (h ! r)\<lparr>gasPrice := None,
                         maxFeePerGas := fee_maxFeePerGas feeData,
                         maxPriorityFeePerGas := fee_maxPriorityFeePerGas feeData,
                         type := Some (JSNum 2)\<rparr>
            else (h ! r)\<lparr>maxFeePerGas := None, maxPriorityFeePerGas := None,
                         gasPrice := Some (case fee_gasPrice feeData of
                                             Some g \<Rightarrow> g | None \<Rightarrow> BN 0),
                         type := Some (JSNum 0)\<rparr>)"
proof
  show "prepareTransaction env account r h = (Inr r1, h1)"
  proof (cases "findSubAccountById account (or_empty (subAccountId (h ! r)))")
    case None
    with assms(4) show ?thesis
      by (simp add: prepareTransaction_dispatch [OF assms(2,3)] prepareCoinTransaction_invalid)
  next
    case (Some sub)
    with assms(4) show ?thesis
      by (cases sub)
        (simp_all add: prepareTransaction_dispatch [OF assms(2,3)]
          prepareCoinTransaction_invalid prepareTokenTransaction_invalid)
  qed
next
  from assms(3) have "r1 = length h" and "h1 = snd (getTypedTransaction r feeData h)"
    by (simp_all add: getTypedTransaction_eq [OF assms(1)])
  then show "h1 ! r1 =
           (if truthy (fee_maxFeePerGas feeData) \<and> truthy (fee_maxPriorityFeePerGas feeData)
            then (h ! r)\<lparr>gasPrice := None,
                         maxFeePerGas := fee_maxFeePerGas feeData,
                         maxPriorityFeePerGas := fee_maxPriorityFeePerGas feeData,
                         type := Some (JSNum 2)\<rparr>
            else (h ! r)\<lparr>maxFeePerGas := None, maxPriorityFeePerGas := None,
                         gasPrice := Some (case fee_gasPrice feeData of
                                             Some g \<Rightarrow> g | None \<Rightarrow> BN 0),
                         type := Some (JSNum 0)\<rparr>)"
    by (simp add: getTypedTransaction_eq [OF assms(1)] nth_append)
qed

text \<open>A draft with no recipient yet, on a fee-market network.\<close>

theorem prepareTransaction_validation_failure_witness:
  "(0::nat) < length [example_incomplete_draft]
   \<and> getFeesEstimation (example_env eip1559_feeData) (currency example_account)
       = Inr eip1559_feeData
   \<and> has_keys (fst (validateRecipient (example_env eip1559_feeData) example_account
        (example_incomplete_draft\<lparr>gasPrice := None, maxFeePerGas := Some (BN 30),
            maxPriorityFeePerGas := Some (BN 3), type := Some (JSNum 2)\<rparr>)))
   \<and> prepareTransaction (example_env eip1559_feeData) example_account 0
        [example_incomplete_draft]
       = (Inr 1, [example_incomplete_draft\<lparr>gasPrice := None\<rparr>,
            example_incomplete_draft\<lparr>gasPrice := None, maxFeePerGas := Some (BN 30),
              maxPriorityFeePerGas := Some (BN 3), type := Some (JSNum 2)\<rparr>])"
proof -
  let ?env = "example_env eip1559_feeData"
  let ?h1 = "[example_incomplete_draft\<lparr>gasPrice := None\<rparr>,
            example_incomplete_draft\<lparr>gasPrice := None, maxFeePerGas := Some (BN 30),
              maxPriorityFeePerGas := Some (BN 3), type := Some (JSNum 2)\<rparr>]"
  have len: "(0::nat) < length [example_incomplete_draft]" by simp
  have invalid:
    "case findSubAccountById example_account
            (or_empty (subAccountId ([example_incomplete_draft] ! 0))) of
       Some (SubTokenAccount tokenAccount) \<Rightarrow>
         has_keys (fst (validateAmount ?env (OfTokenAccount tokenAccount)
                          ((?h1 ! 1)\<lparr>amount := BN 0\<rparr>)
                          (token_amount tokenAccount (?h1 ! 1))))
         \<or> has_keys (fst (validateRecipient ?env example_account
                             ((?h1 ! 1)\<lparr>amount := BN 0\<rparr>)))
     | _ \<Rightarrow>
         has_keys (fst (validateAmount ?env (OfAccount example_account)
                          ((?h1 ! 1)\<lparr>amount := coin_amount ?env example_account (?h1 ! 1)\<rparr>)
                          (coin_totalSpent ?env example_account (?h1 ! 1))))
         \<or> has_keys (fst (validateRecipient ?env example_account (?h1 ! 1)))"
    by (simp add: example_incomplete_subAccountId example_no_subAccount
        example_incomplete_invalid)
  from prepareTransaction_validation_failure
         [OF len example_getFeesEstimation example_typed_incomplete invalid, THEN conjunct1]
  show ?thesis
    by (simp add: example_getFeesEstimation example_incomplete_invalid)
qed

text \<open>
  C2 as stated fails at that draft: validation fails on it, and the transaction returned
  is not equal to the draft (its type is 2 and its fee fields are the network's).
\<close>

theorem prepareTransaction_validation_failure_counterexample:
  "has_keys (fst (validateRecipient (example_env eip1559_feeData) example_account
               example_incomplete_draft))
   \<and> fst (prepareTransaction (example_env eip1559_feeData) example_account 0
            [example_incomplete_draft]) = Inr 1
   \<and> snd (prepareTransaction (example_env eip1559_feeData) example_account 0
            [example_incomplete_draft]) ! 1 \<noteq> example_incomplete_draft"
proof -
  have v: "has_keys (fst (validateRecipient (example_env eip1559_feeData) example_account
               example_incomplete_draft))"
    by (simp add: example_env_def spec_validateRecipient_def example_incomplete_draft_def)
  have "type (example_incomplete_draft\<lparr>gasPrice := None, maxFeePerGas := Some (BN 30),
              maxPriorityFeePerGas := Some (BN 3), type := Some (JSNum 2)\<rparr>)
         \<noteq> type example_incomplete_draft"
    by (simp add: example_incomplete_draft_def example_draft_def)
  then have "example_incomplete_draft\<lparr>gasPrice := None, maxFeePerGas := Some (BN 30),
              maxPriorityFeePerGas := Some (BN 3), type := Some (JSNum 2)\<rparr>
         \<noteq> example_incomplete_draft"
    by (auto dest: arg_cong [where f = type])
  with v show ?thesis by (simp add: example_prepare_incomplete)
qed

section \<open>The coin path with \<^verbatim>\<open>useAllAmount\<close>\<close>

lemma example_draft_fees:
  "getEstimatedFees (example_env feeData) (example_draft\<lparr>recipient := x\<rparr>) = BN 10000"
  by (simp add: example_env_def example_fees_def example_draft_def)

lemma example_draft_valid:
  "\<not> has_keys (fst (validateRecipient (example_env feeData) example_account example_draft))"
  "\<not> has_keys (fst (validateAmount (example_env feeData) (OfAccount example_account)
                        (example_draft\<lparr>amount := BN 99990000\<rparr>) (BN 100000000)))"
  by (simp_all add: example_validateRecipient_valid example_validateAmount_useAllAmount
      example_draft_def example_account_def)

text \<open>
  C4, as the code has it. On the coin path with \<^verbatim>\<open>useAllAmount\<close> set, balance \<open>B\<close>
  and estimated fee \<open>F\<close> of the classified transaction, the amount computed is
  \<open>B - F\<close> and the total spend computed (amount plus fee) is \<open>B\<close>, in exact integer
  arithmetic; and when validation passes and the gas estimate arrives, the transaction
  returned is a new object whose amount is \<open>B - F\<close>.
\<close>

theorem prepareCoinTransaction_useAllAmount:
  assumes "truthy_bool (useAllAmount (h ! r))"
    and "balance account = BN B"
    and "getEstimatedFees env (h ! r) = BN F"
  shows "coin_amount env account (h ! r) = BN (B - F)
       \<and> coin_totalSpent env account (h ! r) = BN B
       \<and> (\<not> has_keys (fst (validateAmount env (OfAccount account)
                              ((h ! r)\<lparr>amount := BN (B - F)\<rparr>) (BN B)))
          \<and> \<not> has_keys (fst (validateRecipient env account (h ! r)))
          \<and> getGasEstimation env account ((h ! r)\<lparr>amount := BN (B - F)\<rparr>) = Inr g
          \<longrightarrow> prepareCoinTransaction env account r h
                = (Inr (length h), h @ [(h ! r)\<lparr>amount := BN (B - F), gasLimit := g\<rparr>]))"
proof -
  have a: "coin_amount env account (h ! r) = BN (B - F)"
    using assms by (simp add: coin_amount_def)
  have t: "coin_totalSpent env account (h ! r) = BN B"
    using assms by (simp add: coin_totalSpent_def a)
  show ?thesis
    by (simp add: a t prepareCoinTransaction_def alloc_def Let_def)
qed

text \<open>
  The spec's example: balance 100000000 minor units, fee 10000, prepared amount 99990000.
\<close>

theorem prepareCoinTransaction_useAllAmount_witness:
  "truthy_bool (useAllAmount ([example_draft] ! 0))
   \<and> balance example_account = BN 100000000
   \<and> getEstimatedFees (example_env legacy_feeData) ([example_draft] ! 0) = BN 10000
   \<and> coin_amount (example_env legacy_feeData) example_account example_draft = BN 99990000
   \<and> coin_totalSpent (example_env legacy_feeData) example_account example_draft
       = BN 100000000
   \<and> \<not> has_keys (fst (validateAmount (example_env legacy_feeData) (OfAccount example_account)
                          (example_draft\<lparr>amount := BN 99990000\<rparr>) (BN 100000000)))
   \<and> \<not> has_keys (fst (validateRecipient (example_env legacy_feeData) example_account
                          example_draft))
   \<and> getGasEstimation (example_env legacy_feeData) example_account
        (example_draft\<lparr>amount := BN 99990000\<rparr>) = Inr (BN 21000)
   \<and> prepareCoinTransaction (example_env legacy_feeData) example_account 0 [example_draft]
       = (Inr 1, [example_draft,
                  example_draft\<lparr>amount := BN 99990000, gasLimit := BN 21000\<rparr>])"
proof -
  have u: "truthy_bool (useAllAmount ([example_draft] ! 0))"
    by (simp add: example_draft_def)
  have b: "balance example_account = BN 100000000"
    by (simp add: example_account_def)
  have f: "getEstimatedFees (example_env legacy_feeData) ([example_draft] ! 0) = BN 10000"
    using example_draft_fees [of legacy_feeData "recipient example_draft"] by simp
  have g: "getGasEstimation (example_env legacy_feeData) example_account
        (example_draft\<lparr>amount := BN 99990000\<rparr>) = Inr (BN 21000)"
    by (simp add: example_env_def)
  from prepareCoinTransaction_useAllAmount [OF u b f, of "BN 21000"]
  show ?thesis
    using u b f g example_draft_valid [of legacy_feeData] by simp
qed

text \<open>
  C4 as stated fails when validation fails: with no recipient yet the coin path returns
  the classified transaction as it is, whose amount is still the draft's 0 and not
  \<open>B - F\<close>.
\<close>

theorem prepareCoinTransaction_useAllAmount_counterexample:
  "truthy_bool (useAllAmount example_incomplete_draft)
   \<and> balance example_account = BN 100000000
   \<and> getEstimatedFees (example_env legacy_feeData) example_incomplete_draft = BN 10000
   \<and> prepareCoinTransaction (example_env legacy_feeData) example_account 0
        [example_incomplete_draft] = (Inr 0, [example_incomplete_draft])
   \<and> amount ([example_incomplete_draft] ! 0) = BN 0
   \<and> BN 0 \<noteq> BN (100000000 - 10000)"
proof -
  have "has_keys (fst (validateRecipient (example_env legacy_feeData) example_account
                    ([example_incomplete_draft] ! 0)))"
    by (simp add: example_env_def spec_validateRecipient_def example_incomplete_draft_def)
  then have "prepareCoinTransaction (example_env legacy_feeData) example_account 0
        [example_incomplete_draft] = (Inr 0, [example_incomplete_draft])"
    by (simp add: prepareCoinTransaction_invalid)
  moreover have "getEstimatedFees (example_env legacy_feeData) example_incomplete_draft
      = BN 10000"
    using example_draft_fees [of legacy_feeData "[]"] by (simp add: example_incomplete_draft_def)
  ultimately show ?thesis
    by (simp add: example_account_def example_incomplete_draft_def example_draft_def)
qed

section \<open>The token path with \<^verbatim>\<open>useAllAmount\<close>\<close>

text \<open>
  Whatever \<open>prepareTokenTransaction\<close> returns has the amount of the classified
  transaction it was given: no branch writes the amount.
\<close>

lemma prepareTokenTransaction_amount:
  assumes "prepareTokenTransaction env account tokenAccount r h = (Inr r', h')"
  shows "amount (h' ! r') = amount (h ! r)"
  using assms
  by (auto simp: prepareTokenTransaction_def Let_def alloc_def nth_append
      split: if_splits sum.splits)

lemma example_token_subAccount:
  "findSubAccountById example_account ''acc+usdt'' = Some (SubTokenAccount example_token)"
  by (simp add: findSubAccountById_def example_account_def example_token_def)

lemma prepareTokenTransaction_valid:
  assumes "\<not> has_keys (fst (validateAmount env (OfTokenAccount tokenAccount)
                              ((h ! r)\<lparr>amount := BN 0\<rparr>) (token_amount tokenAccount (h ! r))))"
    and "\<not> has_keys (fst (validateRecipient env account ((h ! r)\<lparr>amount := BN 0\<rparr>)))"
    and "getTransactionData env ((h ! r)\<lparr>amount := token_amount tokenAccount (h ! r)\<rparr>) = Inr d"
    and "getGasEstimation env account
           ((h ! r)\<lparr>recipient := contractAddress (token tokenAccount), data := d\<rparr>) = Inr g"
  shows "prepareTokenTransaction env account tokenAccount r h
           = (Inr (length h), h @ [(h ! r)\<lparr>data := d, gasLimit := g\<rparr>])"
  using assms by (simp add: prepareTokenTransaction_def Let_def alloc_def)

lemma example_token_path:
  assumes "recipient tx = example_recipient"
    and "truthy_bool (useAllAmount tx)"
    and "freshAddress account = example_sender"
    and "token_balance tokenAccount = BN 50"
  shows "prepareTokenTransaction (example_env feeData) account tokenAccount (length h) (h @ [tx])
           = (Inr (Suc (length h)),
              h @ [tx,
                   tx\<lparr>data := Some ([169, 5, 156, 187] @ replicate 31 0 @ [187]
                                      @ replicate 31 0 @ [50]),
                      gasLimit := BN 21000\<rparr>])"
proof -
  let ?h = "h @ [tx]"
  let ?d = "Some ([169, 5, 156, 187] @ replicate 31 0 @ [187] @ replicate 31 0 @ [50 :: byte])"
  have tx: "?h ! length h = tx" by simp
  have t: "token_amount tokenAccount tx = BN 50"
    using assms(2,4) by (simp add: token_amount_def)
  have a: "\<not> has_keys (fst (validateAmount (example_env feeData) (OfTokenAccount tokenAccount)
                             (tx\<lparr>amount := BN 0\<rparr>) (BN 50)))"
    by (rule example_validateAmount_useAllAmount) (simp_all add: assms(2,4))
  have v: "\<not> has_keys (fst (validateRecipient (example_env feeData) account
                             (tx\<lparr>amount := BN 0\<rparr>)))"
    by (rule example_validateRecipient_valid) (simp_all add: assms(1,3))
  have "getTransactionData (example_env feeData) (tx\<lparr>amount := BN 50\<rparr>) =
           Inr (Some (Buffer_from_hex
                  (drop 2 (''0xa9059cbb'' @ word32 (drop 2 (recipient (tx\<lparr>amount := BN 50\<rparr>)))
                            @ word32 (hexNat (nat 50))))))"
    by (rule example_getTransactionData) (simp_all add: assms(1) is_address_examples)
  then have d: "getTransactionData (example_env feeData) (tx\<lparr>amount := BN 50\<rparr>) = Inr ?d"
    using example_payload by (simp add: assms(1))
  have "prepareTokenTransaction (example_env feeData) account tokenAccount (length h) ?h
          = (Inr (length ?h), ?h @ [(?h ! length h)\<lparr>data := ?d, gasLimit := BN 21000\<rparr>])"
    by (rule prepareTokenTransaction_valid)
      (simp_all only: tx t a v d example_getGasEstimation not_False_eq_True)
  then show ?thesis by simp
qed

text \<open>
  C5, evaluated on the code. A token transfer of the whole balance (50) to a well-formed
  address, from a draft whose amount is 7, passes validation; the amount computed is the
  token balance and the payload encodes a transfer of 50, but the object returned spreads
  \<^verbatim>\<open>typedTransaction\<close> with \<^verbatim>\<open>data\<close> and \<^verbatim>\<open>gasLimit\<close> only, so its amount is
  still 7.
\<close>

theorem prepareTokenTransaction_amount_not_merged:
  "is_address (recipient example_token_draft)
   \<and> truthy_bool (useAllAmount example_token_draft)
   \<and> token_balance example_token = BN 50
   \<and> token_amount example_token example_token_draft = BN 50
   \<and> prepareTokenTransaction (example_env legacy_feeData) example_account example_token 0
        [example_token_draft]
       = (Inr 1,
          [example_token_draft,
           example_token_draft
             \<lparr>data := Some ([169, 5, 156, 187] @ replicate 31 0 @ [187]
                              @ replicate 31 0 @ [50]),
              gasLimit := BN 21000\<rparr>])
   \<and> amount (example_token_draft
               \<lparr>data := Some ([169, 5, 156, 187] @ replicate 31 0 @ [187]
                                @ replicate 31 0 @ [50]),
                gasLimit := BN 21000\<rparr>)
       = BN 7"
proof -
  have r: "recipient example_token_draft = example_recipient"
    by (simp add: example_token_draft_def example_draft_def)
  have u: "truthy_bool (useAllAmount example_token_draft)"
    by (simp add: example_token_draft_def example_draft_def)
  have f: "freshAddress example_account = example_sender"
    by (simp add: example_account_def)
  have b: "token_balance example_token = BN 50"
    by (simp add: example_token_def)
  have t: "token_amount example_token example_token_draft = BN 50"
    using u b by (simp add: token_amount_def)
  have m: "amount example_token_draft = BN 7"
    by (simp add: example_token_draft_def)
  from example_token_path [OF r u f b, of legacy_feeData "[]"]
  show ?thesis
    by (simp add: r u b t m is_address_examples)
qed


section \<open>Preparing for signature\<close>



section \<open>The choice of path\<close>

lemma findSubAccountById_empty:
  assumes "\<forall>sub \<in> set (subAccounts account). subAccount_id sub \<noteq> []"
  shows "findSubAccountById account [] = None"
  using assms by (simp add: findSubAccountById_def find_None_iff)

text \<open>
  C9, as the code has it. \<open>prepareTransaction\<close> looks up
  \<^verbatim>\<open>transaction.subAccountId || ""\<close>, so an absent or empty \<^verbatim>\<open>subAccountId\<close> is looked
  up as the empty id. Whenever the lookup does not give a token account, the classified
  transaction goes to \<open>prepareCoinTransaction\<close>, never to the token path: so for an
  \<^verbatim>\<open>subAccountId\<close> that does not resolve to a token account, and for an absent or empty
  one when no sub-account of the account has the empty id. When the lookup gives a token
  account, the classified transaction goes to \<open>prepareTokenTransaction\<close>.
\<close>

theorem prepareTransaction_coin_path:
  assumes "getFeesEstimation env (currency account) = Inr feeData"
    and "getTypedTransaction r feeData h = (r1, h1)"
  shows "((\<forall>ta. findSubAccountById account (or_empty (subAccountId (h ! r)))
                  \<noteq> Some (SubTokenAccount ta))
          \<longrightarrow> prepareTransaction env account r h = prepareCoinTransaction env account r1 h1)
       \<and> ((subAccountId (h ! r) = None \<or> subAccountId (h ! r) = Some [])
           \<and> (\<forall>sub \<in> set (subAccounts account). subAccount_id sub \<noteq> [])
          \<longrightarrow> prepareTransaction env account r h = prepareCoinTransaction env account r1 h1)
       \<and> (findSubAccountById account (or_empty (subAccountId (h ! r)))
             = Some (SubTokenAccount tokenAccount)
          \<longrightarrow> prepareTransaction env account r h
                = prepareTokenTransaction env account tokenAccount r1 h1)"
proof -
  have coin: "prepareTransaction env account r h = prepareCoinTransaction env account r1 h1"
    if "\<forall>ta. findSubAccountById account (or_empty (subAccountId (h ! r)))
                  \<noteq> Some (SubTokenAccount ta)"
  proof (cases "findSubAccountById account (or_empty (subAccountId (h ! r)))")
    case None
    then show ?thesis by (simp add: prepareTransaction_dispatch [OF assms])
  next
    case (Some sub)
    with that show ?thesis
      by (cases sub) (simp_all add: prepareTransaction_dispatch [OF assms])
  qed
  have "findSubAccountById account (or_empty (subAccountId (h ! r))) = None"
    if "subAccountId (h ! r) = None \<or> subAccountId (h ! r) = Some []"
      and "\<forall>sub \<in> set (subAccounts account). subAccount_id sub \<noteq> []"
    using that findSubAccountById_empty [of account] by auto
  with coin show ?thesis by (simp add: prepareTransaction_dispatch [OF assms])
qed


lemma example_typed_legacy:
  "getTypedTransaction 0 legacy_feeData [example_draft\<lparr>subAccountId := s\<rparr>]
     = (1, [example_draft\<lparr>subAccountId := s\<rparr>, example_draft\<lparr>subAccountId := s\<rparr>])"
  by (simp add: getTypedTransaction_eq legacy_feeData_def) (simp add: example_draft_def)

text \<open>
  A draft with no sub-account, a draft whose sub-account is the child account, and a draft
  whose sub-account is the token account, on an account whose two sub-accounts have ids
  that are not empty.
\<close>

theorem prepareTransaction_coin_path_witness:
  "getFeesEstimation (example_env legacy_feeData) (currency example_account)
     = Inr legacy_feeData
   \<and> subAccountId ([example_draft\<lparr>subAccountId := None\<rparr>] ! 0) = None
   \<and> map subAccount_id (subAccounts example_account) = [''acc+child'', ''acc+usdt'']
   \<and> prepareTransaction (example_env legacy_feeData) example_account 0
        [example_draft\<lparr>subAccountId := None\<rparr>]
       = prepareCoinTransaction (example_env legacy_feeData) example_account 1
           [example_draft\<lparr>subAccountId := None\<rparr>, example_draft\<lparr>subAccountId := None\<rparr>]
   \<and> findSubAccountById example_account
        (or_empty (subAccountId ([example_draft\<lparr>subAccountId := Some ''acc+child''\<rparr>] ! 0)))
       = Some (SubOtherAccount ''acc+child'')
   \<and> prepareTransaction (example_env legacy_feeData) example_account 0
        [example_draft\<lparr>subAccountId := Some ''acc+child''\<rparr>]
       = prepareCoinTransaction (example_env legacy_feeData) example_account 1
           [example_draft\<lparr>subAccountId := Some ''acc+child''\<rparr>,
            example_draft\<lparr>subAccountId := Some ''acc+child''\<rparr>]
   \<and> findSubAccountById example_account
        (or_empty (subAccountId ([example_draft\<lparr>subAccountId := Some ''acc+usdt''\<rparr>] ! 0)))
       = Some (SubTokenAccount example_token)
   \<and> prepareTransaction (example_env legacy_feeData) example_account 0
        [example_draft\<lparr>subAccountId := Some ''acc+usdt''\<rparr>]
       = prepareTokenTransaction (example_env legacy_feeData) example_account example_token 1
           [example_draft\<lparr>subAccountId := Some ''acc+usdt''\<rparr>,
            example_draft\<lparr>subAccountId := Some ''acc+usdt''\<rparr>]"
proof -
  have ids: "map subAccount_id (subAccounts example_account) = [''acc+child'', ''acc+usdt'']"
    by (simp add: example_account_def example_token_def)
  have nonempty: "\<forall>sub \<in> set (subAccounts example_account). subAccount_id sub \<noteq> []"
    by (simp add: example_account_def example_token_def)
  have absent: "subAccountId ([example_draft\<lparr>subAccountId := None\<rparr>] ! 0) = None"
    by simp
  have child: "findSubAccountById example_account
        (or_empty (subAccountId ([example_draft\<lparr>subAccountId := Some ''acc+child''\<rparr>] ! 0)))
       = Some (SubOtherAccount ''acc+child'')"
    by (simp add: findSubAccountById_def example_account_def)
  then have no_token: "\<forall>ta. findSubAccountById example_account
        (or_empty (subAccountId ([example_draft\<lparr>subAccountId := Some ''acc+child''\<rparr>] ! 0)))
       \<noteq> Some (SubTokenAccount ta)"
    by simp
  have token: "findSubAccountById example_account
        (or_empty (subAccountId ([example_draft\<lparr>subAccountId := Some ''acc+usdt''\<rparr>] ! 0)))
       = Some (SubTokenAccount example_token)"
    by (simp add: example_token_subAccount)
  have a: "prepareTransaction (example_env legacy_feeData) example_account 0
        [example_draft\<lparr>subAccountId := None\<rparr>]
       = prepareCoinTransaction (example_env legacy_feeData) example_account 1
           [example_draft\<lparr>subAccountId := None\<rparr>, example_draft\<lparr>subAccountId := None\<rparr>]"
    by (rule prepareTransaction_coin_path
         [OF example_getFeesEstimation example_typed_legacy, THEN conjunct2, THEN conjunct1,
          THEN mp, OF conjI [OF disjI1 [OF absent] nonempty]])
  have c: "prepareTransaction (example_env legacy_feeData) example_account 0
        [example_draft\<lparr>subAccountId := Some ''acc+child''\<rparr>]
       = prepareCoinTransaction (example_env legacy_feeData) example_account 1
           [example_draft\<lparr>subAccountId := Some ''acc+child''\<rparr>,
            example_draft\<lparr>subAccountId := Some ''acc+child''\<rparr>]"
    by (rule prepareTransaction_coin_path
         [OF example_getFeesEstimation example_typed_legacy, THEN conjunct1, THEN mp,
          OF no_token])
  have t: "prepareTransaction (example_env legacy_feeData) example_account 0
        [example_draft\<lparr>subAccountId := Some ''acc+usdt''\<rparr>]
       = prepareTokenTransaction (example_env legacy_feeData) example_account example_token 1
           [example_draft\<lparr>subAccountId := Some ''acc+usdt''\<rparr>,
            example_draft\<lparr>subAccountId := Some ''acc+usdt''\<rparr>]"
    by (rule prepareTransaction_coin_path
         [OF example_getFeesEstimation example_typed_legacy, THEN conjunct2, THEN conjunct2,
          THEN mp, OF token])
  from a c t show ?thesis
    using child token by (simp add: example_getFeesEstimation ids)
qed

text \<open>
  C9 as stated fails for an absent \<^verbatim>\<open>subAccountId\<close> on an account that has a token
  sub-account with the empty id: the lookup of the empty id resolves to it, the token
  path is taken, and what it returns (the draft's amount, a transfer payload) is not what
  the coin path returns (amount balance minus fee, no payload).
\<close>

theorem prepareTransaction_coin_path_counterexample:
  "subAccountId ([example_draft\<lparr>subAccountId := None\<rparr>] ! 0) = None
   \<and> prepareTransaction (example_env legacy_feeData) example_account_empty_id 0
        [example_draft\<lparr>subAccountId := None\<rparr>]
       = prepareTokenTransaction (example_env legacy_feeData) example_account_empty_id
           (example_token\<lparr>token_id := []\<rparr>) 1
           [example_draft\<lparr>subAccountId := None\<rparr>, example_draft\<lparr>subAccountId := None\<rparr>]
   \<and> prepareTransaction (example_env legacy_feeData) example_account_empty_id 0
        [example_draft\<lparr>subAccountId := None\<rparr>]
       \<noteq> prepareCoinTransaction (example_env legacy_feeData) example_account_empty_id 1
           [example_draft\<lparr>subAccountId := None\<rparr>, example_draft\<lparr>subAccountId := None\<rparr>]"
proof -
  let ?d = "example_draft\<lparr>subAccountId := None\<rparr>"
  let ?env = "example_env legacy_feeData"
  let ?tok = "example_token\<lparr>token_id := []\<rparr>"
  have lookup: "findSubAccountById example_account_empty_id (or_empty (subAccountId ?d))
      = Some (SubTokenAccount ?tok)"
    by (simp add: findSubAccountById_def example_account_empty_id_def)
  have fees: "getFeesEstimation ?env (currency example_account_empty_id) = Inr legacy_feeData"
    by (rule example_getFeesEstimation)
  have p: "prepareTransaction ?env example_account_empty_id 0 [?d]
       = prepareTokenTransaction ?env example_account_empty_id ?tok 1 [?d, ?d]"
    using lookup by (simp add: prepareTransaction_dispatch [OF fees example_typed_legacy])
  have r: "recipient ?d = example_recipient" by (simp add: example_draft_def)
  have u: "truthy_bool (useAllAmount ?d)" by (simp add: example_draft_def)
  have f: "freshAddress example_account_empty_id = example_sender"
    by (simp add: example_account_empty_id_def example_account_def)
  have b: "token_balance ?tok = BN 50" by (simp add: example_token_def)
  have bal: "balance example_account_empty_id = BN 100000000"
    by (simp add: example_account_empty_id_def example_account_def)
  have fee: "getEstimatedFees ?env ?d = BN 10000"
    by (simp add: example_env_def example_fees_def example_draft_def)
  have ca: "coin_amount ?env example_account_empty_id ?d = BN 99990000"
    using u by (simp add: coin_amount_def bal fee)
  have ct: "coin_totalSpent ?env example_account_empty_id ?d = BN 100000000"
    by (simp add: coin_totalSpent_def ca fee)
  have tk: "prepareTokenTransaction ?env example_account_empty_id ?tok 1 [?d, ?d]
       = (Inr 2, [?d, ?d,
            ?d\<lparr>data := Some ([169, 5, 156, 187] @ replicate 31 0 @ [187]
                               @ replicate 31 0 @ [50]),
               gasLimit := BN 21000\<rparr>])"
    using example_token_path [OF r u f b, of legacy_feeData "[?d]"] by simp
  have "prepareCoinTransaction ?env example_account_empty_id 1 [?d, ?d]
       = (Inr (length [?d, ?d]),
          [?d, ?d] @ [([?d, ?d] ! 1)\<lparr>amount := coin_amount ?env example_account_empty_id
                                                  ([?d, ?d] ! 1),
                                      gasLimit := BN 21000\<rparr>])"
  proof (rule prepareCoinTransaction_valid)
    have "\<not> has_keys (fst (validateAmount ?env (OfAccount example_account_empty_id)
                              (?d\<lparr>amount := BN 99990000\<rparr>) (BN 100000000)))"
      by (rule example_validateAmount_useAllAmount) (simp_all add: bal example_draft_def)
    then show "\<not> has_keys (fst (validateAmount ?env (OfAccount example_account_empty_id)
                 (([?d, ?d] ! 1)\<lparr>amount := coin_amount ?env example_account_empty_id
                                                  ([?d, ?d] ! 1)\<rparr>)
                 (coin_totalSpent ?env example_account_empty_id ([?d, ?d] ! 1))))"
      by (simp add: ca ct)
    show "\<not> has_keys (fst (validateRecipient ?env example_account_empty_id ([?d, ?d] ! 1)))"
      using example_validateRecipient_valid [OF r f] by simp
    show "getGasEstimation ?env example_account_empty_id
            (([?d, ?d] ! 1)\<lparr>amount := coin_amount ?env example_account_empty_id
                                             ([?d, ?d] ! 1)\<rparr>) = Inr (BN 21000)"
      by (rule example_getGasEstimation)
  qed
  then have cn: "prepareCoinTransaction ?env example_account_empty_id 1 [?d, ?d]
       = (Inr 2, [?d, ?d, ?d\<lparr>amount := BN 99990000, gasLimit := BN 21000\<rparr>])"
    by (simp add: ca)
  have "amount (?d\<lparr>data := Some ([169, 5, 156, 187] @ replicate 31 0 @ [187]
                               @ replicate 31 0 @ [50]),
               gasLimit := BN 21000\<rparr>)
        \<noteq> amount (?d\<lparr>amount := BN 99990000, gasLimit := BN 21000\<rparr>)"
    by (simp add: example_draft_def)
  then have "?d\<lparr>data := Some ([169, 5, 156, 187] @ replicate 31 0 @ [187]
                               @ replicate 31 0 @ [50]),
               gasLimit := BN 21000\<rparr>
        \<noteq> ?d\<lparr>amount := BN 99990000, gasLimit := BN 21000\<rparr>"
    by (auto dest: arg_cong [where f = amount])
  then have "prepareTokenTransaction ?env example_account_empty_id ?tok 1 [?d, ?d]
       \<noteq> prepareCoinTransaction ?env example_account_empty_id 1 [?d, ?d]"
    unfolding tk cn by simp
  with p show ?thesis by simp
qed


section \<open>What the preparer changes in the store\<close>

lemma prepareCoinTransaction_store:
  "\<exists>res h'. prepareCoinTransaction env account r h = (res, h')
     \<and> take (length h) h' = h
     \<and> (\<forall>r'. res = Inr r' \<longrightarrow> r < length h \<longrightarrow> r \<le> r' \<and> r' < length h')"
  by (auto simp: prepareCoinTransaction_def Let_def alloc_def split: sum.splits)

lemma prepareTokenTransaction_store:
  "\<exists>res h'. prepareTokenTransaction env account tokenAccount r h = (res, h')
     \<and> take (length h) h' = h
     \<and> (\<forall>r'. res = Inr r' \<longrightarrow> r < length h \<longrightarrow> r \<le> r' \<and> r' < length h')"
  by (auto simp: prepareTokenTransaction_def Let_def alloc_def split: sum.splits)

lemma prepareTransaction_path_store:
  "\<exists>res h'.
     (case sub of
        Some (SubTokenAccount tokenAccount) \<Rightarrow>
          prepareTokenTransaction env account tokenAccount r h
      | _ \<Rightarrow> prepareCoinTransaction env account r h) = (res, h')
     \<and> take (length h) h' = h
     \<and> (\<forall>r'. res = Inr r' \<longrightarrow> r < length h \<longrightarrow> r \<le> r' \<and> r' < length h')"
proof (cases sub)
  case None
  then show ?thesis using prepareCoinTransaction_store [of env account r h] by simp
next
  case (Some s)
  then show ?thesis
    using prepareCoinTransaction_store [of env account r h]
      prepareTokenTransaction_store [where env = env and account = account and r = r and h = h]
    by (cases s) simp_all
qed

lemma example_typed_eip1559:
  "getTypedTransaction 0 eip1559_feeData [example_draft] =
     (1, [example_draft\<lparr>gasPrice := None\<rparr>,
          example_draft\<lparr>gasPrice := None, maxFeePerGas := Some (BN 30),
            maxPriorityFeePerGas := Some (BN 3), type := Some (JSNum 2)\<rparr>])"
  by (simp add: getTypedTransaction_eq eip1559_feeData_def)

lemma example_typed_amounts:
  "coin_amount (example_env feeData) example_account
     (example_draft\<lparr>gasPrice := None, maxFeePerGas := Some (BN 30),
        maxPriorityFeePerGas := Some (BN 3), type := Some (JSNum 2)\<rparr>) = BN 99850000"
  "coin_totalSpent (example_env feeData) example_account
     (example_draft\<lparr>gasPrice := None, maxFeePerGas := Some (BN 30),
        maxPriorityFeePerGas := Some (BN 3), type := Some (JSNum 2)\<rparr>) = BN 100000000"
  by (simp_all add: coin_totalSpent_def coin_amount_def example_env_def example_fees_def
      example_draft_def example_account_def)

lemma example_typed_valid:
  "\<not> has_keys (fst (validateRecipient (example_env feeData) example_account
       (example_draft\<lparr>gasPrice := None, maxFeePerGas := Some (BN 30),
          maxPriorityFeePerGas := Some (BN 3), type := Some (JSNum 2)\<rparr>)))"
  "\<not> has_keys (fst (validateAmount (example_env feeData) (OfAccount example_account)
       (example_draft\<lparr>gasPrice := None, maxFeePerGas := Some (BN 30),
          maxPriorityFeePerGas := Some (BN 3), type := Some (JSNum 2),
          amount := BN 99850000\<rparr>) (BN 100000000)))"
  by (simp_all add: example_validateRecipient_valid example_validateAmount_useAllAmount
      example_draft_def example_account_def)

lemma example_draft_subAccountId: "subAccountId example_draft = None"
  by (simp add: example_draft_def)

lemma example_prepare_eip1559:
  "prepareTransaction (example_env eip1559_feeData) example_account 0 [example_draft] =
     (Inr 2,
      [example_draft\<lparr>gasPrice := None\<rparr>,
       example_draft\<lparr>gasPrice := None, maxFeePerGas := Some (BN 30),
         maxPriorityFeePerGas := Some (BN 3), type := Some (JSNum 2)\<rparr>,
       example_draft\<lparr>gasPrice := None, maxFeePerGas := Some (BN 30),
         maxPriorityFeePerGas := Some (BN 3), type := Some (JSNum 2),
         amount := BN 99850000, gasLimit := BN 21000\<rparr>])"
proof -
  let ?h1 = "[example_draft\<lparr>gasPrice := None\<rparr>,
          example_draft\<lparr>gasPrice := None, maxFeePerGas := Some (BN 30),
            maxPriorityFeePerGas := Some (BN 3), type := Some (JSNum 2)\<rparr>]"
  have "prepareCoinTransaction (example_env eip1559_feeData) example_account 1 ?h1
          = (Inr (length ?h1),
              ?h1 @ [(?h1 ! 1)\<lparr>amount := coin_amount (example_env eip1559_feeData)
                                             example_account (?h1 ! 1),
                                 gasLimit := BN 21000\<rparr>])"
    by (rule prepareCoinTransaction_valid)
      (simp_all add: example_typed_amounts example_typed_valid example_getGasEstimation)
  then show ?thesis
    by (simp add: prepareTransaction_dispatch [OF example_getFeesEstimation example_typed_eip1559]
        example_draft_subAccountId example_no_subAccount example_typed_amounts)
qed

text \<open>
  C7, as the code has it. If fetching the fee data fails, \<open>prepareTransaction\<close> changes
  nothing. Otherwise the objects that existed before the call are unchanged except the
  input draft, from which \<^verbatim>\<open>gasPrice\<close> has been deleted (fee-market snapshot) or
  \<^verbatim>\<open>maxFeePerGas\<close> and \<^verbatim>\<open>maxPriorityFeePerGas\<close> (otherwise), every other field of the
  draft unchanged; and a transaction that is returned is an object allocated during the
  call, never the input draft.
\<close>

theorem prepareTransaction_store:
  assumes "r < length h"
  shows "case prepareTransaction env account r h of
           (res, h') \<Rightarrow>
             (case getFeesEstimation env (currency account) of
                Inl e \<Rightarrow> res = Inl e \<and> h' = h
              | Inr feeData \<Rightarrow>
                  take (length h) h' =
                    h[r := (if truthy (fee_maxFeePerGas feeData)
                               \<and> truthy (fee_maxPriorityFeePerGas feeData)
                            then (h ! r)\<lparr>gasPrice := None\<rparr>
                            else (h ! r)\<lparr>maxFeePerGas := None,
                                         maxPriorityFeePerGas := None\<rparr>)]
                  \<and> (\<forall>r'. res = Inr r' \<longrightarrow> length h \<le> r' \<and> r' < length h'))"
proof (cases "getFeesEstimation env (currency account)")
  case (Inl e)
  then show ?thesis by (simp add: prepareTransaction_def)
next
  case (Inr feeData)
  obtain r1 h1 where typed: "getTypedTransaction r feeData h = (r1, h1)"
    by (cases "getTypedTransaction r feeData h")
  from typed have r1: "r1 = length h" and len: "length h1 = Suc (length h)"
    and h1: "take (length h) h1 =
               h[r := (if truthy (fee_maxFeePerGas feeData)
                          \<and> truthy (fee_maxPriorityFeePerGas feeData)
                       then (h ! r)\<lparr>gasPrice := None\<rparr>
                       else (h ! r)\<lparr>maxFeePerGas := None, maxPriorityFeePerGas := None\<rparr>)]"
    by (auto simp: getTypedTransaction_eq [OF assms] split: if_splits)
  obtain res h' where
    p: "(case findSubAccountById account (or_empty (subAccountId (h ! r))) of
           Some (SubTokenAccount tokenAccount) \<Rightarrow>
             prepareTokenTransaction env account tokenAccount r1 h1
         | _ \<Rightarrow> prepareCoinTransaction env account r1 h1) = (res, h')"
    and t: "take (length h1) h' = h1"
    and f: "\<forall>r'. res = Inr r' \<longrightarrow> r1 < length h1 \<longrightarrow> r1 \<le> r' \<and> r' < length h'"
    using prepareTransaction_path_store
      [where env = env and account = account and r = r1 and h = h1
         and sub = "findSubAccountById account (or_empty (subAccountId (h ! r)))"]
    by blast
  have "take (length h) h' = take (length h) (take (length h1) h')"
    by (simp add: len min_def)
  then have frame: "take (length h) h' = take (length h) h1"
    by (simp only: t)
  have "prepareTransaction env account r h = (res, h')"
    by (simp add: prepareTransaction_dispatch [OF Inr typed] p)
  then show ?thesis
    using f by (simp add: Inr frame h1 r1 len)
qed

text \<open>A legacy draft on a fee-market network loses its \<^verbatim>\<open>gasPrice\<close>.\<close>

theorem prepareTransaction_store_witness:
  "(0::nat) < length [example_draft]
   \<and> getFeesEstimation (example_env eip1559_feeData) (currency example_account)
       = Inr eip1559_feeData
   \<and> take (length [example_draft])
        (snd (prepareTransaction (example_env eip1559_feeData) example_account 0
               [example_draft]))
       = [example_draft\<lparr>gasPrice := None\<rparr>]
   \<and> fst (prepareTransaction (example_env eip1559_feeData) example_account 0 [example_draft])
       = Inr 2"
proof -
  have len: "(0::nat) < length [example_draft]" by simp
  from prepareTransaction_store [OF len, of "example_env eip1559_feeData" example_account]
  have "take (length [example_draft])
        (snd (prepareTransaction (example_env eip1559_feeData) example_account 0
               [example_draft]))
       = [example_draft\<lparr>gasPrice := None\<rparr>]"
    by (simp add: example_getFeesEstimation eip1559_feeData_def split: prod.splits)
  then show ?thesis
    by (simp add: example_getFeesEstimation) (simp add: example_prepare_eip1559)
qed

text \<open>
  C7 as stated fails: after the call the input draft is not what it was before, and the
  coin step returns on a validation failure the very object it was given.
\<close>

theorem prepareTransaction_store_counterexample:
  "snd (prepareTransaction (example_env eip1559_feeData) example_account 0 [example_draft]) ! 0
     \<noteq> [example_draft] ! 0
   \<and> prepareCoinTransaction (example_env legacy_feeData) example_account 0
        [example_incomplete_draft] = (Inr 0, [example_incomplete_draft])"
proof -
  have "gasPrice (example_draft\<lparr>gasPrice := None\<rparr>) \<noteq> gasPrice example_draft"
    by (simp add: example_draft_def)
  then have "example_draft\<lparr>gasPrice := None\<rparr> \<noteq> example_draft"
    by (auto dest: arg_cong [where f = gasPrice])
  moreover have "has_keys (fst (validateRecipient (example_env legacy_feeData) example_account
                    ([example_incomplete_draft] ! 0)))"
    by (simp add: example_env_def spec_validateRecipient_def example_incomplete_draft_def)
  then have "prepareCoinTransaction (example_env legacy_feeData) example_account 0
        [example_incomplete_draft] = (Inr 0, [example_incomplete_draft])"
    by (simp add: prepareCoinTransaction_invalid)
  ultimately show ?thesis
    by (simp add: example_prepare_eip1559)
qed

end
